theory Spec2Isabelle
  imports Complex_Main "HOL-Library.AList"
begin

section \<open>Exceptions and HTTP errors\<close>

text \<open>
  The handlers of \<^verbatim>\<open>main.py\<close> either return a value or raise. A raised exception is the
  left injection of a sum. Three kinds of exception are told apart by the code:
  \<^verbatim>\<open>JSONDecodeError\<close> (with the text \<^verbatim>\<open>str(e)\<close> gives), FastAPI's
  \<^verbatim>\<open>HTTPException(status_code, detail)\<close>, and every other subclass of
  \<^verbatim>\<open>Exception\<close>, kept with its class name and the text \<^verbatim>\<open>str(e)\<close> gives.
\<close>

datatype exn =
    JSONDecodeError string
  | HTTPException nat string
  | OtherException string string

fun decimal :: "nat \<Rightarrow> string" where
  "decimal n =
     (if n < 10 then [''0123456789'' ! n]
      else decimal (n div 10) @ [''0123456789'' ! (n mod 10)])"

declare decimal.simps [simp del]

text \<open>
  \<^verbatim>\<open>str(e)\<close>. For an \<^verbatim>\<open>HTTPException\<close> the framework renders
  \<^verbatim>\<open>f"{status_code}: {detail}"\<close>; the other exceptions carry their text.
\<close>

fun str :: "exn \<Rightarrow> string" where
  "str (JSONDecodeError msg) = msg"
| "str (HTTPException status_code detail) = decimal status_code @ '': '' @ detail"
| "str (OtherException cls msg) = msg"

fun is_JSONDecodeError :: "exn \<Rightarrow> bool" where
  "is_JSONDecodeError (JSONDecodeError msg) = True"
| "is_JSONDecodeError e = False"

section \<open>The two routes with a symbol path parameter\<close>

text \<open>
  \<^verbatim>\<open>
  def get_daily_scrip_price_graph(symbol):
      try:
          return nepse.getDailyScripPriceGraph(symbol)
      except Exception as e:
          raise HTTPException(status_code=404,
                              detail=f"Data for symbol {symbol} not found: {str(e)}")
  \<close>
  The upstream client method is a parameter: given the symbol it returns data or raises.
\<close>

definition get_daily_scrip_price_graph ::
  "(string \<Rightarrow> exn + 'a) \<Rightarrow> string \<Rightarrow> exn + 'a" where
  "get_daily_scrip_price_graph getDailyScripPriceGraph symbol =
     (case getDailyScripPriceGraph symbol of
        Inr data \<Rightarrow> Inr data
      | Inl e \<Rightarrow>
          Inl (HTTPException 404 (''Data for symbol '' @ symbol @ '' not found: '' @ str e)))"

text \<open>
  \<^verbatim>\<open>
  def get_market_depth(symbol):
      try:
          data = nepse.getSymbolMarketDepth(symbol)
          if data is None:
              raise HTTPException(status_code=404,
                                  detail=f"Market depth for {symbol} not available")
          return data
      except JSONDecodeError:
          raise HTTPException(status_code=404, detail=f"Invalid data received for {symbol}")
      except Exception as e:
          raise HTTPException(status_code=500, detail=f"Error fetching market depth: {str(e)}")
  \<close>
  The body of the \<^verbatim>\<open>try\<close> is one function, the \<^verbatim>\<open>except\<close> clauses are applied
  to whatever it raises, in the order of the source. \<^verbatim>\<open>None\<close> is the \<open>None\<close> of an
  option.
\<close>

definition market_depth_try ::
  "(string \<Rightarrow> exn + 'a option) \<Rightarrow> string \<Rightarrow> exn + 'a" where
  "market_depth_try getSymbolMarketDepth symbol =
     (case getSymbolMarketDepth symbol of
        Inl e \<Rightarrow> Inl e
      | Inr None \<Rightarrow>
          Inl (HTTPException 404 (''Market depth for '' @ symbol @ '' not available''))
      | Inr (Some data) \<Rightarrow> Inr data)"

definition get_market_depth ::
  "(string \<Rightarrow> exn + 'a option) \<Rightarrow> string \<Rightarrow> exn + 'a" where
  "get_market_depth getSymbolMarketDepth symbol =
     (case market_depth_try getSymbolMarketDepth symbol of
        Inr data \<Rightarrow> Inr data
      | Inl e \<Rightarrow>
          if is_JSONDecodeError e
          then Inl (HTTPException 404 (''Invalid data received for '' @ symbol))
          else Inl (HTTPException 500 (''Error fetching market depth: '' @ str e)))"

text \<open>Upstream clients with one fixed behaviour, for the concrete runs below.\<close>

definition client_raising :: "exn \<Rightarrow> string \<Rightarrow> exn + 'a" where
  "client_raising e symbol = Inl e"

definition client_returning :: "'a \<Rightarrow> string \<Rightarrow> exn + 'a" where
  "client_returning data symbol = Inr data"

section \<open>The rate limiter\<close>

text \<open>
  \<^verbatim>\<open>
  async def dispatch(self, request, call_next):
      if self.bucket.take_token():
          return await call_next(request)
      raise HTTPException(status_code=429, detail="Rate limit exceeded")
  \<close>
  The state is the bucket and whatever the rest of the application owns (\<open>world\<close>):
  \<open>take_token\<close> updates the first, \<open>call_next\<close> the second.
\<close>

definition dispatch ::
  "('b \<Rightarrow> bool \<times> 'b) \<Rightarrow> ('req \<Rightarrow> 'w \<Rightarrow> 'resp \<times> 'w) \<Rightarrow> 'req \<Rightarrow> 'b \<times> 'w
     \<Rightarrow> (exn + 'resp) \<times> 'b \<times> 'w" where
  "dispatch take_token call_next request st =
     (case st of (bucket, world) \<Rightarrow>
        (case take_token bucket of
           (True, bucket') \<Rightarrow>
             (case call_next request world of
                (response, world') \<Rightarrow> (Inr response, bucket', world'))
         | (False, bucket') \<Rightarrow>
             (Inl (HTTPException 429 ''Rate limit exceeded''), bucket', world)))"

text \<open>
  Modelled from the spec: the class \<^verbatim>\<open>TokenBucket\<close> of the module
  \<^verbatim>\<open>token_bucket\<close>, which \<^verbatim>\<open>main.py\<close> imports. The spec gives its state
  (capacity, tokens, refill rate, time of the last refill) and its one operation: on each
  call, compute the time elapsed since the last refill, add \<open>elapsed * refill_rate\<close>
  tokens, capped at the capacity, and update the time of the last refill; if there is at
  least one token, take one and return true, else return false. The bucket starts full.
  Clock readings and token counts are rationals; the clock reading of a call is its
  argument \<open>now\<close>.
\<close>

record token_bucket =
  capacity :: rat
  tokens :: rat
  refill_rate :: rat
  last_refill :: rat

definition TokenBucket :: "rat \<Rightarrow> rat \<Rightarrow> rat \<Rightarrow> token_bucket" where
  "TokenBucket cap rate now =
     \<lparr>capacity = cap, tokens = cap, refill_rate = rate, last_refill = now\<rparr>"

definition take_token :: "rat \<Rightarrow> token_bucket \<Rightarrow> bool \<times> token_bucket" where
  "take_token now b =
     (let elapsed = now - last_refill b;
          b1 = b\<lparr>tokens := min (capacity b) (tokens b + elapsed * refill_rate b),
                 last_refill := now\<rparr>
      in if 1 \<le> tokens b1 then (True, b1\<lparr>tokens := tokens b1 - 1\<rparr>) else (False, b1))"

text \<open>\<^verbatim>\<open>bucket = TokenBucket(capacity=4, refill_rate=2)\<close>, created at time \<open>now\<close>.\<close>

definition bucket :: "rat \<Rightarrow> token_bucket" where
  "bucket now = TokenBucket 4 2 now"

text \<open>A run of calls at the given clock readings: each result with the state it leaves.\<close>

fun take_tokens :: "token_bucket \<Rightarrow> rat list \<Rightarrow> (bool \<times> token_bucket) list" where
  "take_tokens b [] = []"
| "take_tokens b (now # nows) =
     (case take_token now b of (ok, b') \<Rightarrow> (ok, b') # take_tokens b' nows)"

definition within_capacity :: "token_bucket \<Rightarrow> bool" where
  "within_capacity b \<longleftrightarrow> 0 \<le> tokens b \<and> tokens b \<le> capacity b"

text \<open>A handler for the concrete runs below: it echoes the request and counts its runs.\<close>

definition counting_handler :: "string \<Rightarrow> nat \<Rightarrow> string \<times> nat" where
  "counting_handler request runs = (request, Suc runs)"

section \<open>The statistics aggregator\<close>

subsection \<open>Dictionaries\<close>

text \<open>
  A Python \<^verbatim>\<open>dict\<close> with string keys is an association list in insertion order with
  no repeated key. Storing under a key that is present replaces the value in place,
  storing under a new key appends: that is \<open>AList.update\<close>. \<^verbatim>\<open>d[k]\<close> raises
  \<^verbatim>\<open>KeyError(k)\<close> when the key is missing.
\<close>

datatype error = KeyError string

type_synonym 'v dict = "(string \<times> 'v) list"

definition dict_keys :: "'v dict \<Rightarrow> string list" where
  "dict_keys d = map fst d"

definition dict_values :: "'v dict \<Rightarrow> 'v list" where
  "dict_values d = map snd d"

definition getitem :: "'v dict \<Rightarrow> string \<Rightarrow> error + 'v" where
  "getitem d k = (case map_of d k of None \<Rightarrow> Inl (KeyError k) | Some v \<Rightarrow> Inr v)"

text \<open>\<^verbatim>\<open>d[k]["field"]\<close> on a dictionary of records.\<close>

definition subscript :: "'v dict \<Rightarrow> string \<Rightarrow> ('v \<Rightarrow> 'a) \<Rightarrow> error + 'a" where
  "subscript d k field = (case getitem d k of Inl e \<Rightarrow> Inl e | Inr v \<Rightarrow> Inr (field v))"

text \<open>\<^verbatim>\<open>{obj[key]: obj for obj in objs}\<close>.\<close>

definition index_by :: "('a \<Rightarrow> string) \<Rightarrow> 'a list \<Rightarrow> 'a dict" where
  "index_by key objs = fold (\<lambda>obj d. AList.update (key obj) obj d) objs []"

subsection \<open>The upstream snapshots\<close>

text \<open>
  The objects the upstream client returns are JSON objects; each is a record of the fields
  the aggregator reads. A JSON number is a Python \<^verbatim>\<open>int\<close> or \<^verbatim>\<open>float\<close>: the
  type \<open>'n\<close> stands for these values, \<open>0\<close> for the integer zero and \<open>+\<close> for
  Python's addition, exact on integers and rounding on floats. Nothing is assumed of
  them: no law of arithmetic is used on \<open>'n\<close>.
\<close>

record company =
  symbol :: string
  sectorName :: string

record 'n turnover_scrip =
  symbol :: string
  turnover :: 'n

record 'n transaction_scrip =
  symbol :: string
  totalTrades :: 'n

record 'n trade_scrip =
  symbol :: string
  shareTraded :: 'n

record 'n mover =
  symbol :: string
  pointChange :: 'n
  percentageChange :: 'n
  ltp :: 'n

record price_volume =
  symbol :: string

record 'n sub_index =
  index :: string
  currentValue :: 'n

text \<open>
  What one request gets from the client \<^verbatim>\<open>nepse\<close>, one field for each method the
  aggregator calls. All the calls are made before the joins start, and an exception of
  one of them leaves the handler as it is; the aggregator is modelled on the lists they
  return.
\<close>

record 'n nepse =
  getCompanyList :: "company list"
  getTopTenTurnoverScrips :: "'n turnover_scrip list"
  getTopTenTransactionScrips :: "'n transaction_scrip list"
  getTopTenTradeScrips :: "'n trade_scrip list"
  getTopGainers :: "'n mover list"
  getTopLosers :: "'n mover list"
  getPriceVolume :: "price_volume list"
  getNepseSubIndices :: "'n sub_index list"

subsection \<open>The records the aggregator builds\<close>

record 'n scrip_details =
  symbol :: string
  sectorName :: string
  totalTurnover :: 'n
  totalTrades :: 'n
  totalTradeQuantity :: 'n
  pointChange :: 'n
  percentageChange :: 'n
  ltp :: 'n

record 'n sector_details =
  totalTrades :: 'n
  totalTradeQuantity :: 'n
  totalTurnover :: 'n
  index :: "'n sub_index"
  sectorName :: string

record 'n response =
  scripsDetails :: "'n scrip_details dict"
  sectorsDetails :: "'n sector_details dict"

subsection \<open>The joins\<close>

text \<open>
  \<^verbatim>\<open>
  def _get_nepse_sub_indices():
      response = dict()
      for obj in nepse.getNepseSubIndices():
          response[obj["index"]] = obj
      return response
  \<close>
\<close>

definition get_nepse_sub_indices :: "'n nepse \<Rightarrow> 'n sub_index dict" where
  "get_nepse_sub_indices n = index_by sub_index.index (getNepseSubIndices n)"

definition sector_mapper :: "string dict" where
  "sector_mapper =
     [(''Commercial Banks'', ''Banking SubIndex''),
      (''Development Banks'', ''Development Bank Index''),
      (''Finance'', ''Finance Index''),
      (''Hotels And Tourism'', ''Hotels And Tourism Index''),
      (''Hydro Power'', ''HydroPower Index''),
      (''Investment'', ''Investment Index''),
      (''Life Insurance'', ''Life Insurance''),
      (''Manufacturing And Processing'', ''Manufacturing And Processing''),
      (''Microfinance'', ''Microfinance Index''),
      (''Mutual Fund'', ''Mutual Fund''),
      (''Non Life Insurance'', ''Non Life Insurance''),
      (''Others'', ''Others Index''),
      (''Tradings'', ''Trading Index'')]"

text \<open>
  The three values read from \<^verbatim>\<open>gainers\<close> or from \<^verbatim>\<open>losers\<close>, in the order of the
  tuple on the right of the assignment.
\<close>

definition changes_of :: "'n mover dict \<Rightarrow> string \<Rightarrow> error + 'n \<times> 'n \<times> 'n" where
  "changes_of d symb =
     (case subscript d symb mover.pointChange of
        Inl e \<Rightarrow> Inl e
      | Inr point_change \<Rightarrow>
     (case subscript d symb mover.percentageChange of
        Inl e \<Rightarrow> Inl e
      | Inr percentage_change \<Rightarrow>
     (case subscript d symb mover.ltp of
        Inl e \<Rightarrow> Inl e
      | Inr last_price \<Rightarrow> Inr (point_change, percentage_change, last_price))))"

text \<open>
  The body of the loop over \<^verbatim>\<open>companies.items()\<close> (lines 433 to 472): the record
  built for one symbol. The guard of the third conditional reads
  \<^verbatim>\<open>transaction.keys()\<close>, as the source does. (\<open>symb\<close> and \<open>turnovers\<close> are
  the source's \<^verbatim>\<open>symbol\<close> and \<^verbatim>\<open>turnover\<close>, which name record fields here.)
\<close>

definition company_details ::
  "'n turnover_scrip dict \<Rightarrow> 'n transaction_scrip dict \<Rightarrow> 'n trade_scrip dict \<Rightarrow>
   'n mover dict \<Rightarrow> 'n mover dict \<Rightarrow> string \<Rightarrow> company \<Rightarrow>
   error + ('n::zero) scrip_details" where
  "company_details turnovers transaction trade gainers losers symb company =
     (case (if symb \<in> set (dict_keys turnovers)
            then subscript turnovers symb turnover_scrip.turnover else Inr 0) of
        Inl e \<Rightarrow> Inl e
      | Inr total_turnover \<Rightarrow>
     (case (if symb \<in> set (dict_keys transaction)
            then subscript transaction symb transaction_scrip.totalTrades else Inr 0) of
        Inl e \<Rightarrow> Inl e
      | Inr total_trades \<Rightarrow>
     (case (if symb \<in> set (dict_keys transaction)
            then subscript trade symb trade_scrip.shareTraded else Inr 0) of
        Inl e \<Rightarrow> Inl e
      | Inr total_trade_quantity \<Rightarrow>
     (case (if symb \<in> set (dict_keys gainers) then changes_of gainers symb
            else if symb \<in> set (dict_keys losers) then changes_of losers symb
            else Inr (0, 0, 0)) of
        Inl e \<Rightarrow> Inl e
      | Inr (point_change, percentage_change, last_price) \<Rightarrow>
          Inr \<lparr>scrip_details.symbol = symb,
               scrip_details.sectorName = company.sectorName company,
               scrip_details.totalTurnover = total_turnover,
               scrip_details.totalTrades = total_trades,
               scrip_details.totalTradeQuantity = total_trade_quantity,
               scrip_details.pointChange = point_change,
               scrip_details.percentageChange = percentage_change,
               scrip_details.ltp = last_price\<rparr>))))"

text \<open>
  \<^verbatim>\<open>for symbol, company in companies.items(): ...; scrips_details[symbol] = company_details\<close>.
  The first exception ends the loop and the request.
\<close>

fun scrips_loop ::
  "'n turnover_scrip dict \<Rightarrow> 'n transaction_scrip dict \<Rightarrow> 'n trade_scrip dict \<Rightarrow>
   'n mover dict \<Rightarrow> 'n mover dict \<Rightarrow> company dict \<Rightarrow> 'n scrip_details dict \<Rightarrow>
   error + ('n::zero) scrip_details dict" where
  "scrips_loop turnovers transaction trade gainers losers [] scrips_details =
     Inr scrips_details"
| "scrips_loop turnovers transaction trade gainers losers ((symb, company) # items)
     scrips_details =
     (case company_details turnovers transaction trade gainers losers symb company of
        Inl e \<Rightarrow> Inl e
      | Inr details \<Rightarrow>
          scrips_loop turnovers transaction trade gainers losers items
            (AList.update symb details scrips_details))"

text \<open>
  The inner loop over \<^verbatim>\<open>scrips_details.values()\<close> (lines 479 to 484): the three
  running totals start at 0 and each \<^verbatim>\<open>+=\<close> adds a field of a record of the sector
  on the right of the total, in the order of the dictionary.
\<close>

definition sector_totals ::
  "string \<Rightarrow> ('n::{zero,plus}) scrip_details list \<Rightarrow> 'n \<times> 'n \<times> 'n" where
  "sector_totals sector scrips =
     fold (\<lambda>details acc.
             case acc of (total_trades, total_trade_quantity, total_turnover) \<Rightarrow>
               if scrip_details.sectorName details = sector
               then (total_trades + scrip_details.totalTrades details,
                     total_trade_quantity + scrip_details.totalTradeQuantity details,
                     total_turnover + scrip_details.totalTurnover details)
               else (total_trades, total_trade_quantity, total_turnover))
          scrips (0, 0, 0)"

text \<open>
  \<^verbatim>\<open>for sector in sectors: ...; sector_details[sector] = {...}\<close>, over the sectors in
  the order given. The two subscripts of
  \<^verbatim>\<open>sector_sub_indices[sector_mapper[sector]]\<close> are evaluated inner first.
\<close>

fun sectors_loop ::
  "'n sub_index dict \<Rightarrow> ('n::{zero,plus}) scrip_details dict \<Rightarrow> string list \<Rightarrow>
   'n sector_details dict \<Rightarrow> error + 'n sector_details dict" where
  "sectors_loop sector_sub_indices scrips_details [] sector_details = Inr sector_details"
| "sectors_loop sector_sub_indices scrips_details (sector # sectors) sector_details =
     (case sector_totals sector (dict_values scrips_details) of
        (total_trades, total_trade_quantity, total_turnover) \<Rightarrow>
     (case getitem sector_mapper sector of
        Inl e \<Rightarrow> Inl e
      | Inr label \<Rightarrow>
     (case getitem sector_sub_indices label of
        Inl e \<Rightarrow> Inl e
      | Inr sub \<Rightarrow>
          sectors_loop sector_sub_indices scrips_details sectors
            (AList.update sector
               \<lparr>sector_details.totalTrades = total_trades,
                sector_details.totalTradeQuantity = total_trade_quantity,
                sector_details.totalTurnover = total_turnover,
                sector_details.index = sub,
                sector_details.sectorName = sector\<rparr>
               sector_details))))"

text \<open>
  \<^verbatim>\<open>sectors = {company["sectorName"] for company in companies.values()}\<close> is a Python
  set, and the order in which a set of strings is iterated is not fixed by the language.
  The order is a parameter \<open>set_order\<close>: from the elements in the order they were added
  to the list in which the loop visits them. Any such order visits every element once.
\<close>

definition iterates_set :: "(string list \<Rightarrow> string list) \<Rightarrow> bool" where
  "iterates_set set_order \<longleftrightarrow> (\<forall>xs. distinct (set_order xs) \<and> set (set_order xs) = set xs)"

text \<open>The handler, lines 402 to 494.\<close>

definition get_trade_turnover_transaction_subindices ::
  "(string list \<Rightarrow> string list) \<Rightarrow> ('n::{zero,plus}) nepse \<Rightarrow> error + 'n response" where
  "get_trade_turnover_transaction_subindices set_order n =
     (let companies = index_by company.symbol (getCompanyList n);
          turnovers = index_by turnover_scrip.symbol (getTopTenTurnoverScrips n);
          transaction = index_by transaction_scrip.symbol (getTopTenTransactionScrips n);
          trade = index_by trade_scrip.symbol (getTopTenTradeScrips n);
          gainers = index_by mover.symbol (getTopGainers n);
          losers = index_by mover.symbol (getTopLosers n);
          price_vol_info = index_by price_volume.symbol (getPriceVolume n);
          sector_sub_indices = get_nepse_sub_indices n
      in case scrips_loop turnovers transaction trade gainers losers companies [] of
           Inl e \<Rightarrow> Inl e
         | Inr scrips_details \<Rightarrow>
             (let sectors = set_order (map company.sectorName (dict_values companies))
              in case sectors_loop sector_sub_indices scrips_details sectors [] of
                   Inl e \<Rightarrow> Inl e
                 | Inr sector_details \<Rightarrow>
                     Inr \<lparr>scripsDetails = scrips_details,
                          sectorsDetails = sector_details\<rparr>))"

subsection \<open>When the handler returns\<close>

text \<open>
  Two conditions on a snapshot decide whether the handler returns or raises. The first:
  every symbol of the company list that is among the transaction leaders is among the
  trade-volume leaders too, so that no lookup in \<^verbatim>\<open>trade\<close> misses. The second:
  the sector of every company that the index of the company list holds is a key of the
  mapping table, and its label is the name of one of the sub-indices.
\<close>

definition quantity_lookups_ok :: "'n nepse \<Rightarrow> bool" where
  "quantity_lookups_ok n \<longleftrightarrow>
     list_all
       (\<lambda>c. company.symbol c \<in> transaction_scrip.symbol ` set (getTopTenTransactionScrips n)
              \<longrightarrow> company.symbol c \<in> trade_scrip.symbol ` set (getTopTenTradeScrips n))
       (getCompanyList n)"

definition sectors_resolve :: "'n nepse \<Rightarrow> bool" where
  "sectors_resolve n \<longleftrightarrow>
     list_all
       (\<lambda>c. case map_of sector_mapper (company.sectorName c) of
               None \<Rightarrow> False
             | Some label \<Rightarrow> label \<in> sub_index.index ` set (getNepseSubIndices n))
       (dict_values (index_by company.symbol (getCompanyList n)))"

subsection \<open>Concrete snapshots\<close>

text \<open>
  The numbers of the concrete snapshots are rationals with their exact addition; the
  values that are added are integers.
\<close>

text \<open>
  A day with two finance companies and one bank. GFCL is in every leaders list and in both
  the gainers and the losers; ICFC is a turnover leader and a loser; NABIL is in no list.
\<close>

definition finance_day :: "rat nepse" where
  "finance_day =
     \<lparr>getCompanyList =
        [\<lparr>company.symbol = ''GFCL'', company.sectorName = ''Finance''\<rparr>,
         \<lparr>company.symbol = ''ICFC'', company.sectorName = ''Finance''\<rparr>,
         \<lparr>company.symbol = ''NABIL'', company.sectorName = ''Commercial Banks''\<rparr>],
      getTopTenTurnoverScrips =
        [\<lparr>turnover_scrip.symbol = ''GFCL'', turnover = 100\<rparr>,
         \<lparr>turnover_scrip.symbol = ''ICFC'', turnover = 250\<rparr>],
      getTopTenTransactionScrips =
        [\<lparr>transaction_scrip.symbol = ''GFCL'', totalTrades = 7\<rparr>],
      getTopTenTradeScrips =
        [\<lparr>trade_scrip.symbol = ''GFCL'', shareTraded = 30\<rparr>],
      getTopGainers =
        [\<lparr>mover.symbol = ''GFCL'', pointChange = 5, percentageChange = 1, ltp = 505\<rparr>],
      getTopLosers =
        [\<lparr>mover.symbol = ''GFCL'', pointChange = - 3, percentageChange = - 1, ltp = 497\<rparr>,
         \<lparr>mover.symbol = ''ICFC'', pointChange = - 2, percentageChange = - 1 / 2,
          ltp = 398\<rparr>],
      getPriceVolume = [],
      getNepseSubIndices =
        [\<lparr>sub_index.index = ''Finance Index'', currentValue = 1800\<rparr>,
         \<lparr>sub_index.index = ''Banking SubIndex'', currentValue = 1400\<rparr>]\<rparr>"

text \<open>A day whose only company is in a sector that the mapping table does not list.\<close>

definition debenture_day :: "rat nepse" where
  "debenture_day =
     \<lparr>getCompanyList =
        [\<lparr>company.symbol = ''NICAD8283'', company.sectorName = ''Corporate Debenture''\<rparr>],
      getTopTenTurnoverScrips = [],
      getTopTenTransactionScrips = [],
      getTopTenTradeScrips = [],
      getTopGainers = [],
      getTopLosers = [],
      getPriceVolume = [],
      getNepseSubIndices =
        [\<lparr>sub_index.index = ''Finance Index'', currentValue = 1800\<rparr>]\<rparr>"

text \<open>A day on which GFCL is a transaction leader and not a trade-volume leader.\<close>

definition transaction_only_day :: "rat nepse" where
  "transaction_only_day =
     \<lparr>getCompanyList =
        [\<lparr>company.symbol = ''GFCL'', company.sectorName = ''Finance''\<rparr>],
      getTopTenTurnoverScrips = [],
      getTopTenTransactionScrips =
        [\<lparr>transaction_scrip.symbol = ''GFCL'', totalTrades = 7\<rparr>],
      getTopTenTradeScrips = [],
      getTopGainers = [],
      getTopLosers = [],
      getPriceVolume = [],
      getNepseSubIndices =
        [\<lparr>sub_index.index = ''Finance Index'', currentValue = 1800\<rparr>]\<rparr>"

text \<open>A day on which GFCL is a trade-volume leader and not a transaction leader.\<close>

definition trade_only_day :: "rat nepse" where
  "trade_only_day =
     \<lparr>getCompanyList =
        [\<lparr>company.symbol = ''GFCL'', company.sectorName = ''Finance''\<rparr>],
      getTopTenTurnoverScrips = [],
      getTopTenTransactionScrips = [],
      getTopTenTradeScrips =
        [\<lparr>trade_scrip.symbol = ''GFCL'', shareTraded = 30\<rparr>],
      getTopGainers = [],
      getTopLosers = [],
      getPriceVolume = [],
      getNepseSubIndices =
        [\<lparr>sub_index.index = ''Finance Index'', currentValue = 1800\<rparr>]\<rparr>"

text \<open>The responses of the handler on \<open>finance_day\<close> and on \<open>trade_only_day\<close>.\<close>

definition finance_day_response :: "rat response" where
  "finance_day_response =
     \<lparr>scripsDetails =
        [(''GFCL'',
          \<lparr>scrip_details.symbol = ''GFCL'', scrip_details.sectorName = ''Finance'',
           scrip_details.totalTurnover = 100, scrip_details.totalTrades = 7,
           scrip_details.totalTradeQuantity = 30, scrip_details.pointChange = 5,
           scrip_details.percentageChange = 1, scrip_details.ltp = 505\<rparr>),
         (''ICFC'',
          \<lparr>scrip_details.symbol = ''ICFC'', scrip_details.sectorName = ''Finance'',
           scrip_details.totalTurnover = 250, scrip_details.totalTrades = 0,
           scrip_details.totalTradeQuantity = 0, scrip_details.pointChange = - 2,
           scrip_details.percentageChange = - 1 / 2, scrip_details.ltp = 398\<rparr>),
         (''NABIL'',
          \<lparr>scrip_details.symbol = ''NABIL'', scrip_details.sectorName = ''Commercial Banks'',
           scrip_details.totalTurnover = 0, scrip_details.totalTrades = 0,
           scrip_details.totalTradeQuantity = 0, scrip_details.pointChange = 0,
           scrip_details.percentageChange = 0, scrip_details.ltp = 0\<rparr>)],
      sectorsDetails =
        [(''Finance'',
          \<lparr>sector_details.totalTrades = 7, sector_details.totalTradeQuantity = 30,
           sector_details.totalTurnover = 350,
           sector_details.index =
             \<lparr>sub_index.index = ''Finance Index'', currentValue = 1800\<rparr>,
           sector_details.sectorName = ''Finance''\<rparr>),
         (''Commercial Banks'',
          \<lparr>sector_details.totalTrades = 0, sector_details.totalTradeQuantity = 0,
           sector_details.totalTurnover = 0,
           sector_details.index =
             \<lparr>sub_index.index = ''Banking SubIndex'', currentValue = 1400\<rparr>,
           sector_details.sectorName = ''Commercial Banks''\<rparr>)]\<rparr>"

definition trade_only_day_response :: "rat response" where
  "trade_only_day_response =
     \<lparr>scripsDetails =
        [(''GFCL'',
          \<lparr>scrip_details.symbol = ''GFCL'', scrip_details.sectorName = ''Finance'',
           scrip_details.totalTurnover = 0, scrip_details.totalTrades = 0,
           scrip_details.totalTradeQuantity = 0, scrip_details.pointChange = 0,
           scrip_details.percentageChange = 0, scrip_details.ltp = 0\<rparr>)],
      sectorsDetails =
        [(''Finance'',
          \<lparr>sector_details.totalTrades = 0, sector_details.totalTradeQuantity = 0,
           sector_details.totalTurnover = 0,
           sector_details.index =
             \<lparr>sub_index.index = ''Finance Index'', currentValue = 1800\<rparr>,
           sector_details.sectorName = ''Finance''\<rparr>)]\<rparr>"

text \<open>
  A company list that names GFCL twice, first in one sector and then in another, with the
  response of the handler on that day.
\<close>

definition relisted_day :: "rat nepse" where
  "relisted_day =
     \<lparr>getCompanyList =
        [\<lparr>company.symbol = ''GFCL'', company.sectorName = ''Finance''\<rparr>,
         \<lparr>company.symbol = ''GFCL'', company.sectorName = ''Others''\<rparr>],
      getTopTenTurnoverScrips = [],
      getTopTenTransactionScrips = [],
      getTopTenTradeScrips = [],
      getTopGainers = [],
      getTopLosers = [],
      getPriceVolume = [],
      getNepseSubIndices =
        [\<lparr>sub_index.index = ''Others Index'', currentValue = 2100\<rparr>]\<rparr>"

definition relisted_day_response :: "rat response" where
  "relisted_day_response =
     \<lparr>scripsDetails =
        [(''GFCL'',
          \<lparr>scrip_details.symbol = ''GFCL'', scrip_details.sectorName = ''Others'',
           scrip_details.totalTurnover = 0, scrip_details.totalTrades = 0,
           scrip_details.totalTradeQuantity = 0, scrip_details.pointChange = 0,
           scrip_details.percentageChange = 0, scrip_details.ltp = 0\<rparr>)],
      sectorsDetails =
        [(''Others'',
          \<lparr>sector_details.totalTrades = 0, sector_details.totalTradeQuantity = 0,
           sector_details.totalTurnover = 0,
           sector_details.index =
             \<lparr>sub_index.index = ''Others Index'', currentValue = 2100\<rparr>,
           sector_details.sectorName = ''Others''\<rparr>)]\<rparr>"

text \<open>
  A company list that names GFCL twice, first in a sector that the mapping table does not
  list and then in one that it lists, with the response of the handler on that day.
\<close>

definition overwritten_day :: "rat nepse" where
  "overwritten_day =
     \<lparr>getCompanyList =
        [\<lparr>company.symbol = ''GFCL'', company.sectorName = ''Corporate Debenture''\<rparr>,
         \<lparr>company.symbol = ''GFCL'', company.sectorName = ''Others''\<rparr>],
      getTopTenTurnoverScrips = [],
      getTopTenTransactionScrips = [],
      getTopTenTradeScrips = [],
      getTopGainers = [],
      getTopLosers = [],
      getPriceVolume = [],
      getNepseSubIndices =
        [\<lparr>sub_index.index = ''Others Index'', currentValue = 2100\<rparr>]\<rparr>"

definition overwritten_day_response :: "rat response" where
  "overwritten_day_response =
     \<lparr>scripsDetails =
        [(''GFCL'',
          \<lparr>scrip_details.symbol = ''GFCL'', scrip_details.sectorName = ''Others'',
           scrip_details.totalTurnover = 0, scrip_details.totalTrades = 0,
           scrip_details.totalTradeQuantity = 0, scrip_details.pointChange = 0,
           scrip_details.percentageChange = 0, scrip_details.ltp = 0\<rparr>)],
      sectorsDetails =
        [(''Others'',
          \<lparr>sector_details.totalTrades = 0, sector_details.totalTradeQuantity = 0,
           sector_details.totalTurnover = 0,
           sector_details.index =
             \<lparr>sub_index.index = ''Others Index'', currentValue = 2100\<rparr>,
           sector_details.sectorName = ''Others''\<rparr>)]\<rparr>"

section \<open>Error responses of the symbol routes\<close>

lemma get_market_depth_Some:
  "getSymbolMarketDepth symb = Inr (Some data) \<Longrightarrow>
   get_market_depth getSymbolMarketDepth symb = Inr data"
  by (simp add: get_market_depth_def market_depth_try_def)

text \<open>
  When the client returns \<^verbatim>\<open>None\<close>, the 404 raised inside the \<^verbatim>\<open>try\<close> is an
  \<^verbatim>\<open>Exception\<close> and not a \<^verbatim>\<open>JSONDecodeError\<close>: the last \<^verbatim>\<open>except\<close> clause
  catches it and the handler answers 500.
\<close>

lemma get_market_depth_None:
  "getSymbolMarketDepth symb = Inr None \<Longrightarrow>
   get_market_depth getSymbolMarketDepth symb =
     Inl (HTTPException 500
            (''Error fetching market depth: '' @
             str (HTTPException 404 (''Market depth for '' @ symb @ '' not available''))))"
  by (simp add: get_market_depth_def market_depth_try_def)

lemma get_market_depth_None_run:
  "get_market_depth (client_returning None :: string \<Rightarrow> exn + nat list option) ''NABIL'' =
     Inl (HTTPException 500
            ''Error fetching market depth: 404: Market depth for NABIL not available'')"
  by (simp add: get_market_depth_def market_depth_try_def client_returning_def decimal.simps)

text \<open>
  C2, as amended. The daily scrip price graph handler answers every exception of the
  client with a 404 whose detail names the symbol and carries the text of the exception.
  The market depth handler answers unparsable data, a \<^verbatim>\<open>JSONDecodeError\<close> of the
  client, with a 404 whose detail names the symbol, and every other exception of the
  client with a 500.
\<close>

theorem symbol_routes_not_found:
  "(getDailyScripPriceGraph symb = Inl e \<longrightarrow>
      get_daily_scrip_price_graph getDailyScripPriceGraph symb =
        Inl (HTTPException 404 (''Data for symbol '' @ symb @ '' not found: '' @ str e))) \<and>
   (getSymbolMarketDepth symb = Inl (JSONDecodeError msg) \<longrightarrow>
      get_market_depth getSymbolMarketDepth symb =
        Inl (HTTPException 404 (''Invalid data received for '' @ symb))) \<and>
   (getSymbolMarketDepth symb = Inl e' \<and> \<not> is_JSONDecodeError e' \<longrightarrow>
      (\<exists>detail. get_market_depth getSymbolMarketDepth symb =
                  Inl (HTTPException 500 detail)))"
  by (simp add: get_daily_scrip_price_graph_def get_market_depth_def market_depth_try_def)

theorem symbol_routes_not_found_witness:
  "get_daily_scrip_price_graph
     (client_raising (OtherException ''KeyError'' ''NABILX'') :: string \<Rightarrow> exn + nat list)
     ''NABILX'' =
     Inl (HTTPException 404 ''Data for symbol NABILX not found: NABILX'') \<and>
   get_market_depth
     (client_raising (JSONDecodeError ''Expecting value'')
        :: string \<Rightarrow> exn + nat list option)
     ''NABIL'' =
     Inl (HTTPException 404 ''Invalid data received for NABIL'') \<and>
   (\<exists>detail.
      get_market_depth
        (client_raising (OtherException ''KeyError'' ''NABILX'')
           :: string \<Rightarrow> exn + nat list option)
        ''NABILX'' =
        Inl (HTTPException 500 detail))"
  using symbol_routes_not_found
          [where getDailyScripPriceGraph =
                   "client_raising (OtherException ''KeyError'' ''NABILX'')
                      :: string \<Rightarrow> exn + nat list"
             and symb = "''NABILX''" and e = "OtherException ''KeyError'' ''NABILX''"
             and getSymbolMarketDepth =
                   "client_raising (OtherException ''KeyError'' ''NABILX'')
                      :: string \<Rightarrow> exn + nat list option"
             and e' = "OtherException ''KeyError'' ''NABILX''"]
        symbol_routes_not_found
          [where getDailyScripPriceGraph =
                   "client_raising (OtherException ''KeyError'' ''NABILX'')
                      :: string \<Rightarrow> exn + nat list"
             and symb = "''NABIL''" and e = "OtherException ''KeyError'' ''NABILX''"
             and getSymbolMarketDepth =
                   "client_raising (JSONDecodeError ''Expecting value'')
                      :: string \<Rightarrow> exn + nat list option"
             and msg = "''Expecting value''" and e' = "JSONDecodeError ''Expecting value''"]
  by (simp add: client_raising_def)

text \<open>
  The market depth lookup of a symbol the client does not know, the client raising a
  \<^verbatim>\<open>KeyError\<close>: the handler answers 500, not 404.
\<close>

theorem market_depth_lookup_counterexample:
  "get_market_depth
     (client_raising (OtherException ''KeyError'' ''NABILX'')
        :: string \<Rightarrow> exn + nat list option)
     ''NABILX'' =
     Inl (HTTPException 500 ''Error fetching market depth: NABILX'')"
  by (simp add: get_market_depth_def market_depth_try_def client_raising_def)

text \<open>
  C3, as amended. The market depth handler answers every exception of the client other
  than a \<^verbatim>\<open>JSONDecodeError\<close> with a 500 whose detail ends with the text of the
  exception. The daily scrip price graph handler has no such path: it answers every
  exception of the client with a 404 and, whatever the client does, never answers 500.
\<close>

theorem symbol_routes_other_failure:
  "(getSymbolMarketDepth symb = Inl e \<and> \<not> is_JSONDecodeError e \<longrightarrow>
      get_market_depth getSymbolMarketDepth symb =
        Inl (HTTPException 500 (''Error fetching market depth: '' @ str e))) \<and>
   (getDailyScripPriceGraph symb = Inl e' \<longrightarrow>
      (\<exists>detail. get_daily_scrip_price_graph getDailyScripPriceGraph symb =
                  Inl (HTTPException 404 detail))) \<and>
   get_daily_scrip_price_graph getDailyScripPriceGraph symb \<noteq>
     Inl (HTTPException 500 detail')"
  by (simp add: get_daily_scrip_price_graph_def get_market_depth_def market_depth_try_def
           split: sum.splits)

theorem symbol_routes_other_failure_witness:
  "get_market_depth
     (client_raising (OtherException ''ConnectionError'' ''Connection refused'')
        :: string \<Rightarrow> exn + nat list option)
     ''NABIL'' =
     Inl (HTTPException 500 ''Error fetching market depth: Connection refused'') \<and>
   (\<exists>detail.
      get_daily_scrip_price_graph
        (client_raising (OtherException ''ConnectionError'' ''Connection refused'')
           :: string \<Rightarrow> exn + nat list)
        ''NABIL'' =
        Inl (HTTPException 404 detail)) \<and>
   get_daily_scrip_price_graph
     (client_raising (OtherException ''ConnectionError'' ''Connection refused'')
        :: string \<Rightarrow> exn + nat list)
     ''NABIL'' \<noteq>
     Inl (HTTPException 500 ''Error fetching market depth: Connection refused'')"
  using symbol_routes_other_failure
          [where getSymbolMarketDepth =
                   "client_raising (OtherException ''ConnectionError'' ''Connection refused'')
                      :: string \<Rightarrow> exn + nat list option"
             and symb = "''NABIL''"
             and e = "OtherException ''ConnectionError'' ''Connection refused''"
             and getDailyScripPriceGraph =
                   "client_raising (OtherException ''ConnectionError'' ''Connection refused'')
                      :: string \<Rightarrow> exn + nat list"
             and e' = "OtherException ''ConnectionError'' ''Connection refused''"
             and detail' = "''Error fetching market depth: Connection refused''"]
  by (simp add: client_raising_def)

text \<open>
  The daily scrip price graph of a listed symbol while the upstream refuses the
  connection: the handler answers 404, not 500.
\<close>

theorem daily_graph_other_failure_counterexample:
  "get_daily_scrip_price_graph
     (client_raising (OtherException ''ConnectionError'' ''Connection refused'')
        :: string \<Rightarrow> exn + nat list)
     ''NABIL'' =
     Inl (HTTPException 404 ''Data for symbol NABIL not found: Connection refused'')"
  by (simp add: get_daily_scrip_price_graph_def client_raising_def)

section \<open>Rate limiting\<close>

text \<open>
  Whatever the bucket and the handler are, \<open>dispatch\<close> consults the bucket once,
  first: the bucket it leaves is the one a single \<open>take_token\<close> leaves. When the answer
  is false it raises the fixed \<^verbatim>\<open>HTTPException\<close> and the handler has not run (the
  state of the application is untouched); when it is true the result and the state are
  those of the handler on the request as it came.
\<close>

lemma dispatch_rate_limit:
  "dispatch consult call_next request (b, world) =
     (if fst (consult b)
      then (Inr (fst (call_next request world)), snd (consult b),
            snd (call_next request world))
      else (Inl (HTTPException 429 ''Rate limit exceeded''), snd (consult b), world))"
  by (simp add: dispatch_def split: prod.splits bool.splits)

text \<open>
  C7. Five requests arrive a tenth of a second apart, the first when the program's bucket
  is created. The first four find a token; the fifth finds four fifths of one, and
  \<open>dispatch\<close> does not return a response of status 429 for it: it raises
  \<^verbatim>\<open>HTTPException(429, "Rate limit exceeded")\<close> out of the middleware, where no
  exception handler of the application stands to turn it into the response of that
  status. The handler has not run and the bucket was consulted once.
\<close>

theorem rate_limit_rejection_run:
  "map fst (take_tokens (bucket 0) [0, 1 / 10, 2 / 10, 3 / 10]) = [True, True, True, True] \<and>
   snd (last (take_tokens (bucket 0) [0, 1 / 10, 2 / 10, 3 / 10])) =
     (bucket 0)\<lparr>tokens := 3 / 5, last_refill := 3 / 10\<rparr> \<and>
   dispatch (take_token (4 / 10)) counting_handler ''GET /summary''
     ((bucket 0)\<lparr>tokens := 3 / 5, last_refill := 3 / 10\<rparr>, 4) =
     (Inl (HTTPException 429 ''Rate limit exceeded''),
      (bucket 0)\<lparr>tokens := 4 / 5, last_refill := 4 / 10\<rparr>, 4)"
  by (simp add: dispatch_def take_token_def bucket_def TokenBucket_def counting_handler_def)

subsection \<open>The token bucket\<close>

lemma take_token_same_instant:
  "last_refill b = now \<Longrightarrow> tokens b \<le> capacity b \<Longrightarrow>
   take_token now b =
     (if 1 \<le> tokens b then (True, b\<lparr>tokens := tokens b - 1\<rparr>) else (False, b))"
  by (simp add: take_token_def Let_def min_def)

lemma take_tokens_same_instant:
  "last_refill b = now \<Longrightarrow> tokens b = of_nat k \<Longrightarrow> tokens b \<le> capacity b \<Longrightarrow>
   map fst (take_tokens b (replicate (Suc k) now)) = replicate k True @ [False]"
proof (induction k arbitrary: b)
  case 0
  then show ?case by (simp add: take_token_same_instant)
next
  case (Suc k)
  let ?b' = "b\<lparr>tokens := tokens b - 1\<rparr>"
  from Suc.prems have one: "1 \<le> tokens b" by simp
  with Suc.prems have step: "take_token now b = (True, ?b')"
    by (simp add: take_token_same_instant)
  have "map fst (take_tokens ?b' (replicate (Suc k) now)) = replicate k True @ [False]"
    using Suc.prems by (intro Suc.IH) simp_all
  with step show ?case by simp
qed

lemma take_token_within_capacity:
  assumes "within_capacity b" "0 \<le> refill_rate b" "last_refill b \<le> now"
    and "take_token now b = (ok, b')"
  shows "within_capacity b' \<and> refill_rate b' = refill_rate b \<and> last_refill b' = now"
proof -
  have "0 \<le> (now - last_refill b) * refill_rate b"
    using assms by (intro mult_nonneg_nonneg) simp_all
  with assms show ?thesis
    by (auto simp: take_token_def Let_def within_capacity_def min_def split: if_splits)
qed

lemma take_tokens_within_capacity:
  "within_capacity b \<Longrightarrow> 0 \<le> refill_rate b \<Longrightarrow> sorted (last_refill b # nows) \<Longrightarrow>
   r \<in> set (take_tokens b nows) \<Longrightarrow> within_capacity (snd r)"
proof (induction nows arbitrary: b)
  case Nil
  then show ?case by simp
next
  case (Cons now nows)
  obtain ok b' where step: "take_token now b = (ok, b')" by (cases "take_token now b")
  from Cons.prems have le: "last_refill b \<le> now" by simp
  from take_token_within_capacity [OF Cons.prems(1,2) le step]
  have b': "within_capacity b'" "refill_rate b' = refill_rate b" "last_refill b' = now"
    by simp_all
  from Cons.prems(4) step consider "r = (ok, b')" | "r \<in> set (take_tokens b' nows)"
    by auto
  then show ?case
  proof cases
    case 1
    with b' show ?thesis by simp
  next
    case 2
    have "sorted (last_refill b' # nows)" using Cons.prems(3) b' by simp
    with 2 b' Cons.prems(2) show ?thesis by (intro Cons.IH [of b']) simp_all
  qed
qed

text \<open>
  C8. A bucket of capacity \<open>n\<close> that starts full answers \<open>n\<close> calls made at the instant
  of its creation with true and the next one with false. It starts within its capacity,
  and with a refill rate that is not negative and a clock that does not run backwards
  every call, at whatever times, leaves \<open>0 \<le> tokens \<le> capacity\<close>.
\<close>

theorem token_bucket_capacity_calls:
  "map fst (take_tokens (TokenBucket (of_nat n) rate now) (replicate (Suc n) now)) =
     replicate n True @ [False] \<and>
   within_capacity (TokenBucket (of_nat n) rate now) \<and>
   (0 \<le> rate \<and> sorted (now # nows) \<longrightarrow>
      (\<forall>r \<in> set (take_tokens (TokenBucket (of_nat n) rate now) nows).
         within_capacity (snd r)))"
proof (intro conjI impI ballI)
  show "map fst (take_tokens (TokenBucket (of_nat n) rate now) (replicate (Suc n) now)) =
          replicate n True @ [False]"
    by (rule take_tokens_same_instant) (simp_all add: TokenBucket_def)
  show init: "within_capacity (TokenBucket (of_nat n) rate now)"
    by (simp add: within_capacity_def TokenBucket_def)
  fix r
  assume "0 \<le> rate \<and> sorted (now # nows)"
    and "r \<in> set (take_tokens (TokenBucket (of_nat n) rate now) nows)"
  with init show "within_capacity (snd r)"
    by (intro take_tokens_within_capacity [of "TokenBucket (of_nat n) rate now" nows r])
       (simp_all add: TokenBucket_def)
qed

theorem token_bucket_capacity_calls_witness:
  "map fst (take_tokens (bucket 0) [0, 0, 0, 0, 0]) = [True, True, True, True, False] \<and>
   within_capacity (bucket 0) \<and>
   (0::rat) \<le> 2 \<and> sorted [0, 0, 1 / 2, 1, 5 :: rat] \<and>
   list_all within_capacity (map snd (take_tokens (bucket 0) [0, 1 / 2, 1, 5]))"
  using token_bucket_capacity_calls [of 4 2 0 "[0, 1 / 2, 1, 5]"]
  by (simp add: bucket_def eval_nat_numeral list_all_iff)

section \<open>Dictionaries and indexes\<close>

lemma in_dict_keys: "k \<in> set (dict_keys d) \<longleftrightarrow> (\<exists>v. map_of d k = Some v)"
  using map_of_eq_None_iff [of d k] by (cases "map_of d k") (auto simp: dict_keys_def)

lemma dict_keys_Nil: "dict_keys [] = []"
  by (simp add: dict_keys_def)

lemma getitem_Inl: "getitem d k = Inl e \<longleftrightarrow> k \<notin> set (dict_keys d) \<and> e = KeyError k"
  by (auto simp: getitem_def in_dict_keys split: option.splits)

lemma getitem_Inr: "getitem d k = Inr v \<longleftrightarrow> map_of d k = Some v"
  by (auto simp: getitem_def split: option.splits)

lemma subscript_Inl: "subscript d k f = Inl e \<longleftrightarrow> k \<notin> set (dict_keys d) \<and> e = KeyError k"
  by (auto simp: subscript_def getitem_def in_dict_keys split: option.splits)

lemma subscript_Inr: "subscript d k f = Inr x \<longleftrightarrow> (\<exists>v. map_of d k = Some v \<and> x = f v)"
  by (auto simp: subscript_def getitem_def in_dict_keys split: option.splits)

lemma find_append:
  "find P (xs @ ys) = (case find P xs of None \<Rightarrow> find P ys | Some x \<Rightarrow> Some x)"
  by (induction xs) auto

lemma find_SomeD: "find P xs = Some x \<Longrightarrow> x \<in> set xs \<and> P x"
  by (induction xs) (auto split: if_splits)

lemma map_of_fold_update:
  "map_of (fold (\<lambda>obj d. AList.update (key obj) obj d) objs d0) k =
     (case find (\<lambda>obj. key obj = k) (rev objs) of None \<Rightarrow> map_of d0 k | Some obj \<Rightarrow> Some obj)"
  by (induction objs arbitrary: d0) (auto simp: find_append update_conv' split: option.splits)

text \<open>
  The index of a list holds, under each key, the last object of the list with that key.
\<close>

lemma map_of_index_by:
  "map_of (index_by key objs) k = find (\<lambda>obj. key obj = k) (rev objs)"
  by (simp add: index_by_def map_of_fold_update split: option.splits)

lemma distinct_fold_update:
  "distinct (map fst d0) \<Longrightarrow>
   distinct (map fst (fold (\<lambda>obj d. AList.update (key obj) obj d) objs d0))"
  by (induction objs arbitrary: d0) (auto simp: distinct_update)

lemma distinct_index_by: "distinct (dict_keys (index_by key objs))"
  by (simp add: index_by_def dict_keys_def distinct_fold_update)

lemma keys_index_by: "set (dict_keys (index_by key objs)) = key ` set objs"
proof -
  have "k \<in> set (dict_keys (index_by key objs)) \<longleftrightarrow> k \<in> key ` set objs" for k
    using find_None_iff [of "\<lambda>obj. key obj = k" "rev objs"]
    by (cases "find (\<lambda>obj. key obj = k) (rev objs)")
       (auto simp: in_dict_keys map_of_index_by)
  then show ?thesis by blast
qed

lemma index_by_entry:
  "map_of (index_by key objs) k = Some obj \<Longrightarrow> obj \<in> set objs \<and> key obj = k"
  using find_SomeD [of "\<lambda>obj. key obj = k" "rev objs" obj]
  by (simp add: map_of_index_by)

lemma in_dict_values:
  "distinct (dict_keys d) \<Longrightarrow> v \<in> set (dict_values d) \<longleftrightarrow> (\<exists>k. map_of d k = Some v)"
  by (force simp: dict_values_def dict_keys_def dest: map_of_SomeD)

text \<open>When no two objects of the list share a key, the index keeps every object.\<close>

lemma index_by_distinct_values:
  assumes "distinct (map key objs)"
  shows "set (dict_values (index_by key objs)) = set objs"
proof
  show "set (dict_values (index_by key objs)) \<subseteq> set objs"
    using index_by_entry [of key objs]
    by (auto simp: in_dict_values distinct_index_by)
next
  show "set objs \<subseteq> set (dict_values (index_by key objs))"
  proof
    fix obj assume obj: "obj \<in> set objs"
    then have "key obj \<in> set (dict_keys (index_by key objs))"
      by (simp add: keys_index_by)
    then obtain v where v: "map_of (index_by key objs) (key obj) = Some v"
      by (auto simp: in_dict_keys)
    then have "v \<in> set objs" "key v = key obj"
      using index_by_entry [of key objs "key obj" v] by simp_all
    with assms obj have "v = obj" by (auto simp: distinct_map inj_on_def)
    with v show "obj \<in> set (dict_values (index_by key objs))"
      by (auto simp: in_dict_values distinct_index_by)
  qed
qed

lemma index_by_keeps:
  assumes "distinct (map key objs)" and "obj \<in> set objs"
  shows "map_of (index_by key objs) (key obj) = Some obj"
proof -
  from assms have "obj \<in> set (dict_values (index_by key objs))"
    by (simp add: index_by_distinct_values)
  then obtain k where k: "map_of (index_by key objs) k = Some obj"
    by (auto simp: in_dict_values distinct_index_by)
  with index_by_entry [OF k] show ?thesis by simp
qed

lemma map_of_dict_values: "map_of d k = Some v \<Longrightarrow> v \<in> set (dict_values d)"
  by (force simp: dict_values_def dest: map_of_SomeD)

lemma sector_mapper_table: "length sector_mapper = 13 \<and> distinct (dict_keys sector_mapper)"
  by (simp add: sector_mapper_def dict_keys_def)

section \<open>The record of one symbol\<close>

lemma changes_of_Inr:
  "changes_of d k = Inr x \<longleftrightarrow>
     (\<exists>m. map_of d k = Some m \<and>
          x = (mover.pointChange m, mover.percentageChange m, mover.ltp m))"
  by (cases "map_of d k") (auto simp: changes_of_def subscript_def getitem_def)

lemma guarded_subscript:
  "(if k \<in> set (dict_keys d) then subscript d k f else Inr 0) =
     Inr (case map_of d k of None \<Rightarrow> 0 | Some v \<Rightarrow> f v)"
  by (cases "map_of d k") (auto simp: in_dict_keys subscript_def getitem_def)

lemma guarded_changes:
  "(if k \<in> set (dict_keys gainers) then changes_of gainers k
    else if k \<in> set (dict_keys losers) then changes_of losers k
    else Inr (0, 0, 0)) =
   Inr (case map_of gainers k of
          Some g \<Rightarrow> (mover.pointChange g, mover.percentageChange g, mover.ltp g)
        | None \<Rightarrow>
            (case map_of losers k of
               Some l \<Rightarrow> (mover.pointChange l, mover.percentageChange l, mover.ltp l)
             | None \<Rightarrow> (0, 0, 0)))"
  by (cases "map_of gainers k"; cases "map_of losers k")
     (auto simp: in_dict_keys changes_of_def subscript_def getitem_def)

text \<open>
  The only lookup of the loop body that is not guarded by its own dictionary is the one in
  \<^verbatim>\<open>trade\<close>: the body raises exactly when the symbol is a key of
  \<^verbatim>\<open>transaction\<close> and not of \<^verbatim>\<open>trade\<close>.
\<close>

lemma company_details_Inl:
  "company_details turnovers transaction trade gainers losers k c = Inl e \<longleftrightarrow>
     k \<in> set (dict_keys transaction) \<and> k \<notin> set (dict_keys trade) \<and> e = KeyError k"
  unfolding company_details_def guarded_subscript guarded_changes
  by (cases "map_of trade k")
     (auto simp: in_dict_keys subscript_def getitem_def split: prod.splits)

lemma company_details_Inr:
  assumes "company_details turnovers transaction trade gainers losers k c = Inr d"
  shows "scrip_details.symbol d = k"
    and "scrip_details.sectorName d = company.sectorName c"
    and "scrip_details.totalTurnover d =
           (case map_of turnovers k of None \<Rightarrow> 0 | Some v \<Rightarrow> turnover v)"
    and "scrip_details.totalTrades d =
           (case map_of transaction k of None \<Rightarrow> 0 | Some v \<Rightarrow> transaction_scrip.totalTrades v)"
    and "k \<notin> set (dict_keys transaction) \<Longrightarrow> scrip_details.totalTradeQuantity d = 0"
    and "k \<in> set (dict_keys transaction) \<Longrightarrow>
           \<exists>v. map_of trade k = Some v \<and> scrip_details.totalTradeQuantity d = shareTraded v"
    and "(scrip_details.pointChange d, scrip_details.percentageChange d, scrip_details.ltp d) =
           (case map_of gainers k of
              Some g \<Rightarrow> (mover.pointChange g, mover.percentageChange g, mover.ltp g)
            | None \<Rightarrow>
                (case map_of losers k of
                   Some l \<Rightarrow> (mover.pointChange l, mover.percentageChange l, mover.ltp l)
                 | None \<Rightarrow> (0, 0, 0)))"
  using assms
  unfolding company_details_def guarded_subscript guarded_changes
  by (auto simp: subscript_Inr split: sum.splits prod.splits if_splits)

section \<open>The two loops\<close>

lemma scrips_loop_keys:
  "scrips_loop turnovers transaction trade gainers losers items acc = Inr out \<Longrightarrow>
   set (dict_keys out) = set (dict_keys acc) \<union> set (dict_keys items)"
proof (induction items arbitrary: acc)
  case Nil
  then show ?case by (simp add: dict_keys_def)
next
  case (Cons item items)
  obtain k c where item: "item = (k, c)" by (cases item)
  from Cons.prems item obtain d where
    d: "company_details turnovers transaction trade gainers losers k c = Inr d" and
    rest: "scrips_loop turnovers transaction trade gainers losers items
             (AList.update k d acc) = Inr out"
    by (auto split: sum.splits)
  from Cons.IH [OF rest] item show ?case
    by (auto simp: dict_keys_def dom_update)
qed

lemma scrips_loop_distinct:
  "scrips_loop turnovers transaction trade gainers losers items acc = Inr out \<Longrightarrow>
   distinct (dict_keys acc) \<Longrightarrow> distinct (dict_keys out)"
proof (induction items arbitrary: acc)
  case Nil
  then show ?case by simp
next
  case (Cons item items)
  obtain k c where item: "item = (k, c)" by (cases item)
  from Cons.prems item obtain d where
    rest: "scrips_loop turnovers transaction trade gainers losers items
             (AList.update k d acc) = Inr out"
    by (auto split: sum.splits)
  from Cons.prems have "distinct (dict_keys (AList.update k d acc))"
    by (simp add: dict_keys_def distinct_update)
  with Cons.IH [OF rest] show ?case .
qed

lemma scrips_loop_lookup:
  "scrips_loop turnovers transaction trade gainers losers items acc = Inr out \<Longrightarrow>
   distinct (dict_keys items) \<Longrightarrow>
   map_of out k =
     (case map_of items k of
        None \<Rightarrow> map_of acc k
      | Some c \<Rightarrow>
          (case company_details turnovers transaction trade gainers losers k c of
             Inl e \<Rightarrow> None
           | Inr d \<Rightarrow> Some d))"
proof (induction items arbitrary: acc)
  case Nil
  then show ?case by simp
next
  case (Cons item items)
  obtain k' c' where item: "item = (k', c')" by (cases item)
  from Cons.prems item obtain d where
    d: "company_details turnovers transaction trade gainers losers k' c' = Inr d" and
    rest: "scrips_loop turnovers transaction trade gainers losers items
             (AList.update k' d acc) = Inr out"
    by (auto split: sum.splits)
  from Cons.prems item have dist: "distinct (dict_keys items)" and
    fresh: "k' \<notin> set (dict_keys items)"
    by (simp_all add: dict_keys_def)
  from fresh have none: "map_of items k' = None"
    by (simp add: dict_keys_def map_of_eq_None_iff)
  from Cons.IH [OF rest dist] item d none show ?case
    by (cases "k = k'") (simp_all add: update_conv' split: option.splits)
qed

lemma scrips_loop_company_details:
  "scrips_loop turnovers transaction trade gainers losers items acc = Inr out \<Longrightarrow>
   (k, c) \<in> set items \<Longrightarrow>
   \<exists>d. company_details turnovers transaction trade gainers losers k c = Inr d"
proof (induction items arbitrary: acc)
  case Nil
  then show ?case by simp
next
  case (Cons item items)
  obtain k' c' where item: "item = (k', c')" by (cases item)
  from Cons.prems item obtain d where
    d: "company_details turnovers transaction trade gainers losers k' c' = Inr d" and
    rest: "scrips_loop turnovers transaction trade gainers losers items
             (AList.update k' d acc) = Inr out"
    by (auto split: sum.splits)
  from Cons.prems(2) item consider "(k, c) = (k', c')" | "(k, c) \<in> set items" by auto
  then show ?case
  proof cases
    case 1
    with d show ?thesis by auto
  next
    case 2
    from Cons.IH [OF rest 2] show ?thesis .
  qed
qed

lemma scrips_loop_Inl:
  "scrips_loop turnovers transaction trade gainers losers items acc = Inl e \<Longrightarrow>
   \<exists>k c. (k, c) \<in> set items \<and>
          company_details turnovers transaction trade gainers losers k c = Inl e"
proof (induction items arbitrary: acc)
  case Nil
  then show ?case by simp
next
  case (Cons item items)
  obtain k' c' where item: "item = (k', c')" by (cases item)
  show ?case
  proof (cases "company_details turnovers transaction trade gainers losers k' c'")
    case (Inl e')
    with Cons.prems item show ?thesis by auto
  next
    case (Inr d)
    with Cons.prems item have
      "scrips_loop turnovers transaction trade gainers losers items
         (AList.update k' d acc) = Inl e"
      by simp
    from Cons.IH [OF this] show ?thesis by auto
  qed
qed

text \<open>
  The inner loop, whatever the addition is: each total is the left-to-right sum, from 0,
  of its field over the records of the sector, in the order of the dictionary.
\<close>

lemma sector_totals_fold:
  "fold (\<lambda>details acc.
           case acc of (total_trades, total_trade_quantity, total_turnover) \<Rightarrow>
             if scrip_details.sectorName details = sector
             then (total_trades + scrip_details.totalTrades details,
                   total_trade_quantity + scrip_details.totalTradeQuantity details,
                   total_turnover + scrip_details.totalTurnover details)
             else (total_trades, total_trade_quantity, total_turnover))
        scrips (a, b, c) =
   (foldl (+) a (map scrip_details.totalTrades
                   (filter (\<lambda>d. scrip_details.sectorName d = sector) scrips)),
    foldl (+) b (map scrip_details.totalTradeQuantity
                   (filter (\<lambda>d. scrip_details.sectorName d = sector) scrips)),
    foldl (+) c (map scrip_details.totalTurnover
                   (filter (\<lambda>d. scrip_details.sectorName d = sector) scrips)))"
  by (induction scrips arbitrary: a b c) simp_all

lemma sector_totals_foldl:
  "sector_totals sector scrips =
   (foldl (+) 0 (map scrip_details.totalTrades
                   (filter (\<lambda>d. scrip_details.sectorName d = sector) scrips)),
    foldl (+) 0 (map scrip_details.totalTradeQuantity
                   (filter (\<lambda>d. scrip_details.sectorName d = sector) scrips)),
    foldl (+) 0 (map scrip_details.totalTurnover
                   (filter (\<lambda>d. scrip_details.sectorName d = sector) scrips)))"
  by (simp add: sector_totals_def sector_totals_fold)

text \<open>
  Where addition is exact (integers, rationals) the left-to-right sum is the sum.
\<close>

lemma foldl_plus_sum_list: "foldl (+) a xs = a + sum_list xs"
  for a :: "'a::monoid_add"
  by (induction xs arbitrary: a) (simp_all add: add.assoc)

lemma sectors_loop_step:
  assumes "sectors_loop subs scrips (sector # sectors) acc = Inr out"
  obtains label sub where
    "map_of sector_mapper sector = Some label" and "map_of subs label = Some sub" and
    "sectors_loop subs scrips sectors
       (AList.update sector
          \<lparr>sector_details.totalTrades = fst (sector_totals sector (dict_values scrips)),
           sector_details.totalTradeQuantity =
             fst (snd (sector_totals sector (dict_values scrips))),
           sector_details.totalTurnover =
             snd (snd (sector_totals sector (dict_values scrips))),
           sector_details.index = sub,
           sector_details.sectorName = sector\<rparr>
          acc) = Inr out"
  using assms by (auto simp: getitem_Inr split: prod.splits sum.splits)

lemma sectors_loop_keys:
  "sectors_loop subs scrips sectors acc = Inr out \<Longrightarrow>
   set (dict_keys out) = set (dict_keys acc) \<union> set sectors"
proof (induction sectors arbitrary: acc)
  case Nil
  then show ?case by simp
next
  case (Cons sector sectors)
  from Cons.prems obtain r where
    "sectors_loop subs scrips sectors (AList.update sector r acc) = Inr out"
    by (rule sectors_loop_step)
  from Cons.IH [OF this] show ?case
    by (auto simp: dict_keys_def dom_update)
qed

lemma sectors_loop_distinct:
  "sectors_loop subs scrips sectors acc = Inr out \<Longrightarrow>
   distinct (dict_keys acc) \<Longrightarrow> distinct (dict_keys out)"
proof (induction sectors arbitrary: acc)
  case Nil
  then show ?case by simp
next
  case (Cons sector sectors)
  from Cons.prems(1) obtain r where
    rest: "sectors_loop subs scrips sectors (AList.update sector r acc) = Inr out"
    by (rule sectors_loop_step)
  from Cons.prems(2) have "distinct (dict_keys (AList.update sector r acc))"
    by (simp add: dict_keys_def distinct_update)
  with Cons.IH [OF rest] show ?case .
qed

lemma sectors_loop_other:
  "sectors_loop subs scrips sectors acc = Inr out \<Longrightarrow> s \<notin> set sectors \<Longrightarrow>
   map_of out s = map_of acc s"
proof (induction sectors arbitrary: acc)
  case Nil
  then show ?case by simp
next
  case (Cons sector sectors)
  from Cons.prems(1) obtain r where
    "sectors_loop subs scrips sectors (AList.update sector r acc) = Inr out"
    by (rule sectors_loop_step)
  from Cons.IH [OF this] Cons.prems(2) show ?case
    by (simp add: update_conv')
qed

lemma sectors_loop_lookup:
  "sectors_loop subs scrips sectors acc = Inr out \<Longrightarrow> s \<in> set sectors \<Longrightarrow>
   \<exists>label sub.
     map_of sector_mapper s = Some label \<and> map_of subs label = Some sub \<and>
     map_of out s =
       Some \<lparr>sector_details.totalTrades = fst (sector_totals s (dict_values scrips)),
             sector_details.totalTradeQuantity =
               fst (snd (sector_totals s (dict_values scrips))),
             sector_details.totalTurnover =
               snd (snd (sector_totals s (dict_values scrips))),
             sector_details.index = sub,
             sector_details.sectorName = s\<rparr>"
proof (induction sectors arbitrary: acc)
  case Nil
  then show ?case by simp
next
  case (Cons sector sectors)
  from Cons.prems(1) obtain label sub where
    label: "map_of sector_mapper sector = Some label" and
    sub: "map_of subs label = Some sub" and
    rest: "sectors_loop subs scrips sectors
       (AList.update sector
          \<lparr>sector_details.totalTrades = fst (sector_totals sector (dict_values scrips)),
           sector_details.totalTradeQuantity =
             fst (snd (sector_totals sector (dict_values scrips))),
           sector_details.totalTurnover =
             snd (snd (sector_totals sector (dict_values scrips))),
           sector_details.index = sub,
           sector_details.sectorName = sector\<rparr>
          acc) = Inr out"
    by (rule sectors_loop_step)
  show ?case
  proof (cases "s \<in> set sectors")
    case True
    from Cons.IH [OF rest True] show ?thesis .
  next
    case False
    with Cons.prems(2) have "s = sector" by simp
    with sectors_loop_other [OF rest False] label sub show ?thesis
      by (simp add: update_conv')
  qed
qed

text \<open>
  When the loops return. The first loop returns exactly when no symbol it visits is a key
  of \<^verbatim>\<open>transaction\<close> without being a key of \<^verbatim>\<open>trade\<close>; the second exactly
  when every sector it visits is in the mapping table with a label that names a sub-index.
\<close>

lemma scrips_loop_returns:
  "(\<exists>out. scrips_loop turnovers transaction trade gainers losers items acc = Inr out) \<longleftrightarrow>
   (\<forall>(k, c) \<in> set items. k \<in> set (dict_keys transaction) \<longrightarrow> k \<in> set (dict_keys trade))"
proof
  assume "\<exists>out. scrips_loop turnovers transaction trade gainers losers items acc = Inr out"
  then obtain out where
    out: "scrips_loop turnovers transaction trade gainers losers items acc = Inr out" ..
  show "\<forall>(k, c) \<in> set items. k \<in> set (dict_keys transaction) \<longrightarrow> k \<in> set (dict_keys trade)"
  proof (clarify)
    fix k c
    assume item: "(k, c) \<in> set items" and leader: "k \<in> set (dict_keys transaction)"
    from scrips_loop_company_details [OF out item] obtain d where
      "company_details turnovers transaction trade gainers losers k c = Inr d" ..
    then have "company_details turnovers transaction trade gainers losers k c \<noteq>
        Inl (KeyError k)"
      by simp
    with leader show "k \<in> set (dict_keys trade)"
      by (simp add: company_details_Inl)
  qed
next
  assume ok: "\<forall>(k, c) \<in> set items.
      k \<in> set (dict_keys transaction) \<longrightarrow> k \<in> set (dict_keys trade)"
  show "\<exists>out. scrips_loop turnovers transaction trade gainers losers items acc = Inr out"
  proof (cases "scrips_loop turnovers transaction trade gainers losers items acc")
    case (Inl e)
    from scrips_loop_Inl [OF Inl] obtain k c where
      "(k, c) \<in> set items" and
      "company_details turnovers transaction trade gainers losers k c = Inl e"
      by blast
    with ok show ?thesis by (auto simp: company_details_Inl)
  next
    case (Inr out)
    then show ?thesis by blast
  qed
qed

lemma sectors_loop_Inl:
  "sectors_loop subs scrips sectors acc = Inl e \<Longrightarrow>
   \<exists>s \<in> set sectors. \<forall>label. map_of sector_mapper s = Some label \<longrightarrow> map_of subs label = None"
proof (induction sectors arbitrary: acc)
  case Nil
  then show ?case by simp
next
  case (Cons sector sectors)
  show ?case
  proof (cases "map_of sector_mapper sector")
    case None
    then show ?thesis by simp
  next
    case (Some label)
    show ?thesis
    proof (cases "map_of subs label")
      case None
      with Some show ?thesis by simp
    next
      case (Some sub)
      with \<open>map_of sector_mapper sector = Some label\<close> Cons.prems obtain r where
        "sectors_loop subs scrips sectors (AList.update sector r acc) = Inl e"
        by (auto simp: getitem_def split: prod.splits)
      from Cons.IH [OF this] show ?thesis by auto
    qed
  qed
qed

lemma sectors_loop_returns:
  "(\<exists>out. sectors_loop subs scrips sectors acc = Inr out) \<longleftrightarrow>
   (\<forall>s \<in> set sectors.
      \<exists>label sub. map_of sector_mapper s = Some label \<and> map_of subs label = Some sub)"
proof
  assume "\<exists>out. sectors_loop subs scrips sectors acc = Inr out"
  then obtain out where out: "sectors_loop subs scrips sectors acc = Inr out" ..
  show "\<forall>s \<in> set sectors.
      \<exists>label sub. map_of sector_mapper s = Some label \<and> map_of subs label = Some sub"
  proof
    fix s assume "s \<in> set sectors"
    from sectors_loop_lookup [OF out this] show
      "\<exists>label sub. map_of sector_mapper s = Some label \<and> map_of subs label = Some sub"
      by blast
  qed
next
  assume ok: "\<forall>s \<in> set sectors.
      \<exists>label sub. map_of sector_mapper s = Some label \<and> map_of subs label = Some sub"
  show "\<exists>out. sectors_loop subs scrips sectors acc = Inr out"
  proof (cases "sectors_loop subs scrips sectors acc")
    case (Inl e)
    from sectors_loop_Inl [OF Inl] ok show ?thesis by fastforce
  next
    case (Inr out)
    then show ?thesis by blast
  qed
qed

section \<open>The aggregator\<close>

lemma handler_Inr:
  assumes "get_trade_turnover_transaction_subindices set_order n = Inr out"
  shows "scrips_loop
           (index_by turnover_scrip.symbol (getTopTenTurnoverScrips n))
           (index_by transaction_scrip.symbol (getTopTenTransactionScrips n))
           (index_by trade_scrip.symbol (getTopTenTradeScrips n))
           (index_by mover.symbol (getTopGainers n))
           (index_by mover.symbol (getTopLosers n))
           (index_by company.symbol (getCompanyList n)) [] = Inr (scripsDetails out)"
    and "sectors_loop (get_nepse_sub_indices n) (scripsDetails out)
           (set_order (map company.sectorName
              (dict_values (index_by company.symbol (getCompanyList n))))) [] =
         Inr (sectorsDetails out)"
  using assms
  by (auto simp: get_trade_turnover_transaction_subindices_def Let_def split: sum.splits)

lemma handler_scrip:
  assumes run: "get_trade_turnover_transaction_subindices set_order n = Inr out"
    and c: "map_of (index_by company.symbol (getCompanyList n)) k = Some c"
  shows "\<exists>d. map_of (scripsDetails out) k = Some d \<and>
             company_details
               (index_by turnover_scrip.symbol (getTopTenTurnoverScrips n))
               (index_by transaction_scrip.symbol (getTopTenTransactionScrips n))
               (index_by trade_scrip.symbol (getTopTenTradeScrips n))
               (index_by mover.symbol (getTopGainers n))
               (index_by mover.symbol (getTopLosers n)) k c = Inr d"
proof -
  note loop = handler_Inr(1) [OF run]
  from c have "(k, c) \<in> set (index_by company.symbol (getCompanyList n))"
    by (rule map_of_SomeD)
  from scrips_loop_company_details [OF loop this] obtain d where
    d: "company_details
          (index_by turnover_scrip.symbol (getTopTenTurnoverScrips n))
          (index_by transaction_scrip.symbol (getTopTenTransactionScrips n))
          (index_by trade_scrip.symbol (getTopTenTradeScrips n))
          (index_by mover.symbol (getTopGainers n))
          (index_by mover.symbol (getTopLosers n)) k c = Inr d" ..
  from scrips_loop_lookup [OF loop distinct_index_by, of k] c d
  have "map_of (scripsDetails out) k = Some d" by simp
  with d show ?thesis by blast
qed

lemma listed_symbol:
  assumes "c \<in> set (getCompanyList n)"
  obtains c' where
    "map_of (index_by company.symbol (getCompanyList n)) (company.symbol c) = Some c'"
proof -
  from assms have "company.symbol c \<in>
      set (dict_keys (index_by company.symbol (getCompanyList n)))"
    by (simp add: keys_index_by)
  then show thesis using that by (auto simp: in_dict_keys)
qed

text \<open>
  The handler returns exactly on the snapshots that meet the two conditions; on every
  other snapshot it raises.
\<close>

lemma scrips_loop_handler_returns:
  "(\<exists>out. scrips_loop
           (index_by turnover_scrip.symbol (getTopTenTurnoverScrips n))
           (index_by transaction_scrip.symbol (getTopTenTransactionScrips n))
           (index_by trade_scrip.symbol (getTopTenTradeScrips n))
           (index_by mover.symbol (getTopGainers n))
           (index_by mover.symbol (getTopLosers n))
           (index_by company.symbol (getCompanyList n)) [] = Inr out) \<longleftrightarrow>
   quantity_lookups_ok n"
proof -
  have "(\<forall>(k, c) \<in> set (index_by company.symbol (getCompanyList n)).
           k \<in> transaction_scrip.symbol ` set (getTopTenTransactionScrips n) \<longrightarrow>
           k \<in> trade_scrip.symbol ` set (getTopTenTradeScrips n)) \<longleftrightarrow>
        (\<forall>k \<in> set (dict_keys (index_by company.symbol (getCompanyList n))).
           k \<in> transaction_scrip.symbol ` set (getTopTenTransactionScrips n) \<longrightarrow>
           k \<in> trade_scrip.symbol ` set (getTopTenTradeScrips n))"
    by (force simp: dict_keys_def)
  then show ?thesis
    by (simp add: scrips_loop_returns keys_index_by quantity_lookups_ok_def list_all_iff)
qed

lemma sectors_loop_handler_returns:
  assumes "iterates_set set_order"
  shows "(\<exists>out. sectors_loop (get_nepse_sub_indices n) scrips
           (set_order (map company.sectorName
              (dict_values (index_by company.symbol (getCompanyList n))))) [] = Inr out) \<longleftrightarrow>
         sectors_resolve n"
proof -
  have "(\<exists>sub. map_of (get_nepse_sub_indices n) label = Some sub) \<longleftrightarrow>
        label \<in> sub_index.index ` set (getNepseSubIndices n)" for label
    using in_dict_keys [of label "get_nepse_sub_indices n"]
    by (simp add: get_nepse_sub_indices_def keys_index_by)
  then have "(\<exists>label sub. map_of sector_mapper s = Some label \<and>
                 map_of (get_nepse_sub_indices n) label = Some sub) \<longleftrightarrow>
        (case map_of sector_mapper s of
           None \<Rightarrow> False
         | Some label \<Rightarrow> label \<in> sub_index.index ` set (getNepseSubIndices n))" for s
    by (cases "map_of sector_mapper s") simp_all
  with assms show ?thesis
    by (simp add: sectors_loop_returns sectors_resolve_def list_all_iff iterates_set_def)
qed

lemma handler_returns_iff:
  assumes "iterates_set set_order"
  shows "(\<exists>out. get_trade_turnover_transaction_subindices set_order n = Inr out) \<longleftrightarrow>
         quantity_lookups_ok n \<and> sectors_resolve n"
proof
  assume "\<exists>out. get_trade_turnover_transaction_subindices set_order n = Inr out"
  then obtain out where
    out: "get_trade_turnover_transaction_subindices set_order n = Inr out" ..
  from handler_Inr(1) [OF out] have "quantity_lookups_ok n"
    using scrips_loop_handler_returns [of n] by blast
  moreover from handler_Inr(2) [OF out] have "sectors_resolve n"
    using sectors_loop_handler_returns [OF assms, of n "scripsDetails out"] by blast
  ultimately show "quantity_lookups_ok n \<and> sectors_resolve n" ..
next
  assume ok: "quantity_lookups_ok n \<and> sectors_resolve n"
  then obtain scrips where
    scrips: "scrips_loop
           (index_by turnover_scrip.symbol (getTopTenTurnoverScrips n))
           (index_by transaction_scrip.symbol (getTopTenTransactionScrips n))
           (index_by trade_scrip.symbol (getTopTenTradeScrips n))
           (index_by mover.symbol (getTopGainers n))
           (index_by mover.symbol (getTopLosers n))
           (index_by company.symbol (getCompanyList n)) [] = Inr scrips"
    using scrips_loop_handler_returns [of n] by blast
  from ok obtain sectors where
    "sectors_loop (get_nepse_sub_indices n) scrips
       (set_order (map company.sectorName
          (dict_values (index_by company.symbol (getCompanyList n))))) [] = Inr sectors"
    using sectors_loop_handler_returns [OF assms, of n scrips] by blast
  with scrips show "\<exists>out. get_trade_turnover_transaction_subindices set_order n = Inr out"
    by (simp add: get_trade_turnover_transaction_subindices_def Let_def)
qed

subsection \<open>Runs on the concrete snapshots\<close>

lemmas run_defs =
  get_trade_turnover_transaction_subindices_def index_by_def get_nepse_sub_indices_def
  company_details_def changes_of_def subscript_def getitem_def dict_keys_def dict_values_def
  sector_totals_def sector_mapper_def

lemmas condition_defs =
  quantity_lookups_ok_def sectors_resolve_def index_by_def dict_values_def sector_mapper_def

lemma iterates_set_remdups: "iterates_set remdups"
  by (simp add: iterates_set_def)

lemma finance_day_run:
  "get_trade_turnover_transaction_subindices remdups finance_day = Inr finance_day_response"
  by (simp add: run_defs finance_day_def finance_day_response_def)

lemma relisted_day_run:
  "get_trade_turnover_transaction_subindices remdups relisted_day = Inr relisted_day_response"
  by (simp add: run_defs relisted_day_def relisted_day_response_def)

subsection \<open>The fields of a symbol record\<close>

text \<open>
  The three totals of the record of a listed symbol, when the handler returns: the
  turnover and the number of trades are those of the symbol's entry in their own index
  and 0 without one; the traded quantity is 0 when the symbol has no entry in the
  transaction index, and with one it is that of its entry in the trade index.
\<close>

lemma aggregate_totals:
  assumes run: "get_trade_turnover_transaction_subindices set_order n = Inr out"
    and c: "c \<in> set (getCompanyList n)"
  shows "\<exists>d. map_of (scripsDetails out) (company.symbol c) = Some d \<and>
           scrip_details.totalTurnover d =
             (case map_of (index_by turnover_scrip.symbol (getTopTenTurnoverScrips n))
                     (company.symbol c) of
                None \<Rightarrow> 0 | Some v \<Rightarrow> turnover v) \<and>
           scrip_details.totalTrades d =
             (case map_of (index_by transaction_scrip.symbol (getTopTenTransactionScrips n))
                     (company.symbol c) of
                None \<Rightarrow> 0 | Some v \<Rightarrow> transaction_scrip.totalTrades v) \<and>
           (case map_of (index_by transaction_scrip.symbol (getTopTenTransactionScrips n))
                   (company.symbol c) of
              None \<Rightarrow> scrip_details.totalTradeQuantity d = 0
            | Some t \<Rightarrow>
                (\<exists>v. map_of (index_by trade_scrip.symbol (getTopTenTradeScrips n))
                          (company.symbol c) = Some v \<and>
                     scrip_details.totalTradeQuantity d = shareTraded v))"
proof -
  from c obtain c' where
    "map_of (index_by company.symbol (getCompanyList n)) (company.symbol c) = Some c'"
    by (rule listed_symbol)
  from handler_scrip [OF run this] obtain d where
    d: "map_of (scripsDetails out) (company.symbol c) = Some d" and
    cd: "company_details
           (index_by turnover_scrip.symbol (getTopTenTurnoverScrips n))
           (index_by transaction_scrip.symbol (getTopTenTransactionScrips n))
           (index_by trade_scrip.symbol (getTopTenTradeScrips n))
           (index_by mover.symbol (getTopGainers n))
           (index_by mover.symbol (getTopLosers n)) (company.symbol c) c' = Inr d"
    by blast
  have "case map_of (index_by transaction_scrip.symbol (getTopTenTransactionScrips n))
               (company.symbol c) of
          None \<Rightarrow> scrip_details.totalTradeQuantity d = 0
        | Some t \<Rightarrow>
            (\<exists>v. map_of (index_by trade_scrip.symbol (getTopTenTradeScrips n))
                      (company.symbol c) = Some v \<and>
                 scrip_details.totalTradeQuantity d = shareTraded v)"
    using company_details_Inr(5,6) [OF cd]
    by (auto simp: in_dict_keys split: option.splits)
  with d company_details_Inr(3,4) [OF cd] show ?thesis by simp
qed

text \<open>
  C1. The traded quantity of a symbol is not the value of the trade-volume leaders
  whenever the symbol is one of them: on \<open>trade_only_day\<close> GFCL is a trade-volume
  leader with 30 shares traded and is not a transaction leader, and the record the
  handler builds for it has \<open>totalTradeQuantity = 0\<close>.
\<close>

theorem trade_only_day_run:
  "map_of (index_by trade_scrip.symbol (getTopTenTradeScrips trade_only_day)) ''GFCL'' =
     Some \<lparr>trade_scrip.symbol = ''GFCL'', shareTraded = 30\<rparr> \<and>
   get_trade_turnover_transaction_subindices remdups trade_only_day =
     Inr trade_only_day_response \<and>
   map (scrip_details.totalTradeQuantity \<circ> snd) (scripsDetails trade_only_day_response) = [0]"
  by (simp add: run_defs trade_only_day_def trade_only_day_response_def)

text \<open>
  C6. The handler returns exactly on the snapshots that meet the two conditions above,
  and the response then holds, for every symbol of the company list, a record with the
  point change, the percentage change and the last traded price of the symbol's entry in
  the gainers index if there is one, else those of its entry in the losers index if
  there is one, else three zeros; gainers win over losers. (By \<open>map_of_index_by\<close> the
  entry of an index is the last object of the feed with that symbol.)
\<close>

theorem aggregate_changes:
  assumes order: "iterates_set set_order"
    and c: "c \<in> set (getCompanyList n)"
  shows "((\<exists>out. get_trade_turnover_transaction_subindices set_order n = Inr out) \<longleftrightarrow>
            quantity_lookups_ok n \<and> sectors_resolve n) \<and>
         (\<forall>out. get_trade_turnover_transaction_subindices set_order n = Inr out \<longrightarrow>
            (\<exists>d. map_of (scripsDetails out) (company.symbol c) = Some d \<and>
               (scrip_details.pointChange d, scrip_details.percentageChange d,
                scrip_details.ltp d) =
               (case map_of (index_by mover.symbol (getTopGainers n)) (company.symbol c) of
                  Some g \<Rightarrow> (mover.pointChange g, mover.percentageChange g, mover.ltp g)
                | None \<Rightarrow>
                    (case map_of (index_by mover.symbol (getTopLosers n))
                            (company.symbol c) of
                       Some l \<Rightarrow>
                         (mover.pointChange l, mover.percentageChange l, mover.ltp l)
                     | None \<Rightarrow> (0, 0, 0)))))"
proof (intro conjI allI impI)
  show "(\<exists>out. get_trade_turnover_transaction_subindices set_order n = Inr out) \<longleftrightarrow>
          quantity_lookups_ok n \<and> sectors_resolve n"
    by (rule handler_returns_iff [OF order])
next
  fix out
  assume run: "get_trade_turnover_transaction_subindices set_order n = Inr out"
  from c obtain c' where
    "map_of (index_by company.symbol (getCompanyList n)) (company.symbol c) = Some c'"
    by (rule listed_symbol)
  from handler_scrip [OF run this] obtain d where
    d: "map_of (scripsDetails out) (company.symbol c) = Some d" and
    cd: "company_details
           (index_by turnover_scrip.symbol (getTopTenTurnoverScrips n))
           (index_by transaction_scrip.symbol (getTopTenTransactionScrips n))
           (index_by trade_scrip.symbol (getTopTenTradeScrips n))
           (index_by mover.symbol (getTopGainers n))
           (index_by mover.symbol (getTopLosers n)) (company.symbol c) c' = Inr d"
    by blast
  from d company_details_Inr(7) [OF cd]
  show "\<exists>d. map_of (scripsDetails out) (company.symbol c) = Some d \<and>
          (scrip_details.pointChange d, scrip_details.percentageChange d,
           scrip_details.ltp d) =
          (case map_of (index_by mover.symbol (getTopGainers n)) (company.symbol c) of
             Some g \<Rightarrow> (mover.pointChange g, mover.percentageChange g, mover.ltp g)
           | None \<Rightarrow>
               (case map_of (index_by mover.symbol (getTopLosers n)) (company.symbol c) of
                  Some l \<Rightarrow> (mover.pointChange l, mover.percentageChange l, mover.ltp l)
                | None \<Rightarrow> (0, 0, 0)))"
    by blast
qed

theorem aggregate_changes_witness:
  "iterates_set remdups \<and>
   \<lparr>company.symbol = ''GFCL'', company.sectorName = ''Finance''\<rparr>
     \<in> set (getCompanyList finance_day) \<and>
   quantity_lookups_ok finance_day \<and> sectors_resolve finance_day \<and>
   get_trade_turnover_transaction_subindices remdups finance_day = Inr finance_day_response \<and>
   (\<exists>d. map_of (scripsDetails finance_day_response) ''GFCL'' = Some d \<and>
        (scrip_details.pointChange d, scrip_details.percentageChange d,
         scrip_details.ltp d) = (5, 1, 505)) \<and>
   (\<exists>d. map_of (scripsDetails finance_day_response) ''ICFC'' = Some d \<and>
        (scrip_details.pointChange d, scrip_details.percentageChange d,
         scrip_details.ltp d) = (- 2, - 1 / 2, 398)) \<and>
   (\<exists>d. map_of (scripsDetails finance_day_response) ''NABIL'' = Some d \<and>
        (scrip_details.pointChange d, scrip_details.percentageChange d,
         scrip_details.ltp d) = (0, 0, 0)) \<and>
   quantity_lookups_ok trade_only_day \<and> sectors_resolve trade_only_day \<and>
   (\<exists>out. get_trade_turnover_transaction_subindices remdups trade_only_day = Inr out) \<and>
   \<not> quantity_lookups_ok transaction_only_day \<and>
   (\<nexists>out. get_trade_turnover_transaction_subindices remdups transaction_only_day = Inr out) \<and>
   \<not> sectors_resolve debenture_day \<and>
   (\<nexists>out. get_trade_turnover_transaction_subindices remdups debenture_day = Inr out)"
proof -
  have gfcl: "\<lparr>company.symbol = ''GFCL'', company.sectorName = ''Finance''\<rparr>
                \<in> set (getCompanyList finance_day)"
    and icfc: "\<lparr>company.symbol = ''ICFC'', company.sectorName = ''Finance''\<rparr>
                \<in> set (getCompanyList finance_day)"
    and nabil: "\<lparr>company.symbol = ''NABIL'', company.sectorName = ''Commercial Banks''\<rparr>
                \<in> set (getCompanyList finance_day)"
    by (simp_all add: finance_day_def)
  have trade_only: "\<lparr>company.symbol = ''GFCL'', company.sectorName = ''Finance''\<rparr>
                \<in> set (getCompanyList trade_only_day)"
    by (simp add: trade_only_day_def)
  have transaction_only: "\<lparr>company.symbol = ''GFCL'', company.sectorName = ''Finance''\<rparr>
                \<in> set (getCompanyList transaction_only_day)"
    by (simp add: transaction_only_day_def)
  have debenture:
    "\<lparr>company.symbol = ''NICAD8283'', company.sectorName = ''Corporate Debenture''\<rparr>
                \<in> set (getCompanyList debenture_day)"
    by (simp add: debenture_day_def)
  have conditions:
    "quantity_lookups_ok finance_day" "sectors_resolve finance_day"
    "quantity_lookups_ok trade_only_day" "sectors_resolve trade_only_day"
    "\<not> quantity_lookups_ok transaction_only_day" "\<not> sectors_resolve debenture_day"
    by (simp_all add: condition_defs finance_day_def trade_only_day_def
          transaction_only_day_def debenture_day_def)
  have fields:
    "(\<exists>d. map_of (scripsDetails finance_day_response) ''GFCL'' = Some d \<and>
        (scrip_details.pointChange d, scrip_details.percentageChange d,
         scrip_details.ltp d) = (5, 1, 505))"
    "(\<exists>d. map_of (scripsDetails finance_day_response) ''ICFC'' = Some d \<and>
        (scrip_details.pointChange d, scrip_details.percentageChange d,
         scrip_details.ltp d) = (- 2, - 1 / 2, 398))"
    "(\<exists>d. map_of (scripsDetails finance_day_response) ''NABIL'' = Some d \<and>
        (scrip_details.pointChange d, scrip_details.percentageChange d,
         scrip_details.ltp d) = (0, 0, 0))"
    using aggregate_changes [OF iterates_set_remdups gfcl]
          aggregate_changes [OF iterates_set_remdups icfc]
          aggregate_changes [OF iterates_set_remdups nabil]
          finance_day_run
    by (simp_all add: finance_day_def index_by_def)
  from aggregate_changes [OF iterates_set_remdups trade_only]
       aggregate_changes [OF iterates_set_remdups transaction_only]
       aggregate_changes [OF iterates_set_remdups debenture]
       conditions fields finance_day_run iterates_set_remdups gfcl
  show ?thesis by simp
qed

text \<open>
  C9. Whenever a symbol of the company list is among the transaction leaders and not
  among the trade-volume leaders, the handler raises \<^verbatim>\<open>KeyError\<close> for such a
  symbol: the lookup \<^verbatim>\<open>trade[symbol]\<close> is guarded by the keys of
  \<^verbatim>\<open>transaction\<close>. The run on \<open>transaction_only_day\<close> is such an input.
\<close>

theorem trade_quantity_key_error:
  assumes c: "c \<in> set (getCompanyList n)"
    and leader: "company.symbol c \<in>
                   transaction_scrip.symbol ` set (getTopTenTransactionScrips n)"
    and absent: "company.symbol c \<notin> trade_scrip.symbol ` set (getTopTenTradeScrips n)"
  shows "\<exists>k. get_trade_turnover_transaction_subindices set_order n = Inl (KeyError k) \<and>
             k \<in> company.symbol ` set (getCompanyList n) \<and>
             k \<in> transaction_scrip.symbol ` set (getTopTenTransactionScrips n) \<and>
             k \<notin> trade_scrip.symbol ` set (getTopTenTradeScrips n)"
proof -
  let ?loop = "scrips_loop
           (index_by turnover_scrip.symbol (getTopTenTurnoverScrips n))
           (index_by transaction_scrip.symbol (getTopTenTransactionScrips n))
           (index_by trade_scrip.symbol (getTopTenTradeScrips n))
           (index_by mover.symbol (getTopGainers n))
           (index_by mover.symbol (getTopLosers n))
           (index_by company.symbol (getCompanyList n)) []"
  from c obtain c' where
    c': "map_of (index_by company.symbol (getCompanyList n)) (company.symbol c) = Some c'"
    by (rule listed_symbol)
  then have item: "(company.symbol c, c') \<in> set (index_by company.symbol (getCompanyList n))"
    by (rule map_of_SomeD)
  have "\<exists>e. ?loop = Inl e"
  proof (cases ?loop)
    case (Inl e)
    then show ?thesis by blast
  next
    case (Inr scrips)
    from scrips_loop_company_details [OF Inr item] obtain d where
      d: "company_details
            (index_by turnover_scrip.symbol (getTopTenTurnoverScrips n))
            (index_by transaction_scrip.symbol (getTopTenTransactionScrips n))
            (index_by trade_scrip.symbol (getTopTenTradeScrips n))
            (index_by mover.symbol (getTopGainers n))
            (index_by mover.symbol (getTopLosers n)) (company.symbol c) c' = Inr d" ..
    from leader have "company.symbol c \<in>
        set (dict_keys (index_by transaction_scrip.symbol (getTopTenTransactionScrips n)))"
      by (simp add: keys_index_by)
    from company_details_Inr(6) [OF d this] have "company.symbol c \<in>
        set (dict_keys (index_by trade_scrip.symbol (getTopTenTradeScrips n)))"
      by (auto simp: in_dict_keys)
    with absent show ?thesis by (simp add: keys_index_by)
  qed
  then obtain e where e: "?loop = Inl e" ..
  from scrips_loop_Inl [OF e] obtain k c'' where
    k: "(k, c'') \<in> set (index_by company.symbol (getCompanyList n))" and
    "company_details
       (index_by turnover_scrip.symbol (getTopTenTurnoverScrips n))
       (index_by transaction_scrip.symbol (getTopTenTransactionScrips n))
       (index_by trade_scrip.symbol (getTopTenTradeScrips n))
       (index_by mover.symbol (getTopGainers n))
       (index_by mover.symbol (getTopLosers n)) k c'' = Inl e"
    by blast
  then have "e = KeyError k"
    "k \<in> transaction_scrip.symbol ` set (getTopTenTransactionScrips n)"
    "k \<notin> trade_scrip.symbol ` set (getTopTenTradeScrips n)"
    by (simp_all add: company_details_Inl keys_index_by)
  moreover from k have "k \<in> company.symbol ` set (getCompanyList n)"
    using keys_index_by [of company.symbol "getCompanyList n"]
    by (force simp: dict_keys_def)
  moreover from e have "get_trade_turnover_transaction_subindices set_order n = Inl e"
    by (simp add: get_trade_turnover_transaction_subindices_def Let_def)
  ultimately show ?thesis by blast
qed

theorem trade_quantity_key_error_witness:
  "\<lparr>company.symbol = ''GFCL'', company.sectorName = ''Finance''\<rparr>
     \<in> set (getCompanyList transaction_only_day) \<and>
   ''GFCL'' \<in> transaction_scrip.symbol ` set (getTopTenTransactionScrips transaction_only_day) \<and>
   ''GFCL'' \<notin> trade_scrip.symbol ` set (getTopTenTradeScrips transaction_only_day) \<and>
   get_trade_turnover_transaction_subindices remdups transaction_only_day =
     Inl (KeyError ''GFCL'')"
proof -
  have c: "\<lparr>company.symbol = ''GFCL'', company.sectorName = ''Finance''\<rparr>
     \<in> set (getCompanyList transaction_only_day)"
    and leader: "company.symbol \<lparr>company.symbol = ''GFCL'', company.sectorName = ''Finance''\<rparr>
      \<in> transaction_scrip.symbol ` set (getTopTenTransactionScrips transaction_only_day)"
    and absent: "company.symbol \<lparr>company.symbol = ''GFCL'', company.sectorName = ''Finance''\<rparr>
      \<notin> trade_scrip.symbol ` set (getTopTenTradeScrips transaction_only_day)"
    by (simp_all add: transaction_only_day_def)
  from trade_quantity_key_error [OF c leader absent, of remdups] c leader absent
  show ?thesis
    by (auto simp: transaction_only_day_def)
qed

subsection \<open>Keys and sector records\<close>

text \<open>
  C10. When the handler returns, the keys of \<open>scripsDetails\<close> are the symbols of the
  company list, each once; the record under a symbol has the sector name of the company
  the index of the company list holds under that symbol (the last one of the list with
  that symbol); and the keys of \<open>sectorsDetails\<close> are the sector names of the
  companies of that index, each once.
\<close>

theorem aggregate_keys:
  assumes run: "get_trade_turnover_transaction_subindices set_order n = Inr out"
    and order: "iterates_set set_order"
  shows "set (dict_keys (scripsDetails out)) = company.symbol ` set (getCompanyList n) \<and>
         distinct (dict_keys (scripsDetails out)) \<and>
         (\<forall>k d. map_of (scripsDetails out) k = Some d \<longrightarrow>
            (\<exists>c. map_of (index_by company.symbol (getCompanyList n)) k = Some c \<and>
                 scrip_details.sectorName d = company.sectorName c)) \<and>
         set (dict_keys (sectorsDetails out)) =
           company.sectorName `
             set (dict_values (index_by company.symbol (getCompanyList n))) \<and>
         distinct (dict_keys (sectorsDetails out))"
proof (intro conjI allI impI)
  note scrips = handler_Inr(1) [OF run] and sectors = handler_Inr(2) [OF run]
  show keys: "set (dict_keys (scripsDetails out)) = company.symbol ` set (getCompanyList n)"
    using scrips_loop_keys [OF scrips] by (simp add: keys_index_by dict_keys_Nil)
  show "distinct (dict_keys (scripsDetails out))"
    using scrips_loop_distinct [OF scrips] by (simp add: dict_keys_Nil)
  show "set (dict_keys (sectorsDetails out)) =
          company.sectorName ` set (dict_values (index_by company.symbol (getCompanyList n)))"
    using sectors_loop_keys [OF sectors] order
    by (simp add: iterates_set_def dict_keys_Nil)
  show "distinct (dict_keys (sectorsDetails out))"
    using sectors_loop_distinct [OF sectors] by (simp add: dict_keys_Nil)
  fix k d
  assume d: "map_of (scripsDetails out) k = Some d"
  then have "k \<in> set (dict_keys (scripsDetails out))" by (auto simp: in_dict_keys)
  with keys have "k \<in> set (dict_keys (index_by company.symbol (getCompanyList n)))"
    by (simp add: keys_index_by)
  then obtain c where c: "map_of (index_by company.symbol (getCompanyList n)) k = Some c"
    by (auto simp: in_dict_keys)
  from handler_scrip [OF run c] d obtain
    "company_details
       (index_by turnover_scrip.symbol (getTopTenTurnoverScrips n))
       (index_by transaction_scrip.symbol (getTopTenTransactionScrips n))
       (index_by trade_scrip.symbol (getTopTenTradeScrips n))
       (index_by mover.symbol (getTopGainers n))
       (index_by mover.symbol (getTopLosers n)) k c = Inr d"
    by auto
  from company_details_Inr(2) [OF this] c
  show "\<exists>c. map_of (index_by company.symbol (getCompanyList n)) k = Some c \<and>
            scrip_details.sectorName d = company.sectorName c"
    by blast
qed

theorem aggregate_keys_witness:
  "get_trade_turnover_transaction_subindices remdups finance_day = Inr finance_day_response \<and>
   iterates_set remdups \<and>
   set (dict_keys (scripsDetails finance_day_response)) = {''GFCL'', ''ICFC'', ''NABIL''} \<and>
   map_of (scripsDetails finance_day_response) ''NABIL'' =
     Some \<lparr>scrip_details.symbol = ''NABIL'', scrip_details.sectorName = ''Commercial Banks'',
           scrip_details.totalTurnover = 0, scrip_details.totalTrades = 0,
           scrip_details.totalTradeQuantity = 0, scrip_details.pointChange = 0,
           scrip_details.percentageChange = 0, scrip_details.ltp = 0\<rparr> \<and>
   map_of (index_by company.symbol (getCompanyList finance_day)) ''NABIL'' =
     Some \<lparr>company.symbol = ''NABIL'', company.sectorName = ''Commercial Banks''\<rparr> \<and>
   set (dict_keys (sectorsDetails finance_day_response)) = {''Finance'', ''Commercial Banks''} \<and>
   get_trade_turnover_transaction_subindices remdups relisted_day = Inr relisted_day_response \<and>
   dict_keys (scripsDetails relisted_day_response) = [''GFCL''] \<and>
   map_of (index_by company.symbol (getCompanyList relisted_day)) ''GFCL'' =
     Some \<lparr>company.symbol = ''GFCL'', company.sectorName = ''Others''\<rparr> \<and>
   dict_keys (sectorsDetails relisted_day_response) = [''Others'']"
  using aggregate_keys [OF finance_day_run iterates_set_remdups]
        aggregate_keys [OF relisted_day_run iterates_set_remdups]
        finance_day_run relisted_day_run iterates_set_remdups
  by (simp add: finance_day_def relisted_day_def index_by_def dict_keys_def dict_values_def
        finance_day_response_def relisted_day_response_def insert_commute)

text \<open>
  C5, as amended. The handler returns exactly on the snapshots that meet the two
  conditions above, and then the sector of every company of the company list that the
  index of the list holds under its symbol (by \<open>index_by_keeps\<close> that is every company
  of the list when no symbol is repeated) has a sector record, whose three totals are
  the sums of the corresponding fields over exactly the symbol records of the response
  whose sector name is that sector: the sums from 0, with the addition of the numbers,
  in the order of \<open>scripsDetails\<close> (by \<open>foldl_plus_sum_list\<close> the sum itself where
  addition is exact). On \<open>finance_day\<close> the two finance companies have turnovers 100
  and 250 and the sector has 350.
\<close>

theorem sector_sums:
  assumes order: "iterates_set set_order"
    and c: "c \<in> set (getCompanyList n)"
    and kept: "map_of (index_by company.symbol (getCompanyList n)) (company.symbol c) = Some c"
  shows "((\<exists>out. get_trade_turnover_transaction_subindices set_order n = Inr out) \<longleftrightarrow>
            quantity_lookups_ok n \<and> sectors_resolve n) \<and>
         (\<forall>out. get_trade_turnover_transaction_subindices set_order n = Inr out \<longrightarrow>
            (\<exists>r. map_of (sectorsDetails out) (company.sectorName c) = Some r \<and>
               sector_details.totalTrades r =
                 foldl (+) 0 (map scrip_details.totalTrades
                   (filter (\<lambda>d. scrip_details.sectorName d = company.sectorName c)
                      (dict_values (scripsDetails out)))) \<and>
               sector_details.totalTradeQuantity r =
                 foldl (+) 0 (map scrip_details.totalTradeQuantity
                   (filter (\<lambda>d. scrip_details.sectorName d = company.sectorName c)
                      (dict_values (scripsDetails out)))) \<and>
               sector_details.totalTurnover r =
                 foldl (+) 0 (map scrip_details.totalTurnover
                   (filter (\<lambda>d. scrip_details.sectorName d = company.sectorName c)
                      (dict_values (scripsDetails out))))))"
proof (intro conjI allI impI)
  show "(\<exists>out. get_trade_turnover_transaction_subindices set_order n = Inr out) \<longleftrightarrow>
          quantity_lookups_ok n \<and> sectors_resolve n"
    by (rule handler_returns_iff [OF order])
next
  fix out
  assume run: "get_trade_turnover_transaction_subindices set_order n = Inr out"
  from kept order have "company.sectorName c \<in>
      set (set_order (map company.sectorName
             (dict_values (index_by company.symbol (getCompanyList n)))))"
    by (simp add: iterates_set_def map_of_dict_values)
  from sectors_loop_lookup [OF handler_Inr(2) [OF run] this]
  show "\<exists>r. map_of (sectorsDetails out) (company.sectorName c) = Some r \<and>
          sector_details.totalTrades r =
            foldl (+) 0 (map scrip_details.totalTrades
              (filter (\<lambda>d. scrip_details.sectorName d = company.sectorName c)
                 (dict_values (scripsDetails out)))) \<and>
          sector_details.totalTradeQuantity r =
            foldl (+) 0 (map scrip_details.totalTradeQuantity
              (filter (\<lambda>d. scrip_details.sectorName d = company.sectorName c)
                 (dict_values (scripsDetails out)))) \<and>
          sector_details.totalTurnover r =
            foldl (+) 0 (map scrip_details.totalTurnover
              (filter (\<lambda>d. scrip_details.sectorName d = company.sectorName c)
                 (dict_values (scripsDetails out))))"
    by (auto simp: sector_totals_foldl)
qed

theorem sector_sums_witness:
  "iterates_set remdups \<and>
   \<lparr>company.symbol = ''GFCL'', company.sectorName = ''Finance''\<rparr>
     \<in> set (getCompanyList finance_day) \<and>
   map_of (index_by company.symbol (getCompanyList finance_day)) ''GFCL'' =
     Some \<lparr>company.symbol = ''GFCL'', company.sectorName = ''Finance''\<rparr> \<and>
   quantity_lookups_ok finance_day \<and> sectors_resolve finance_day \<and>
   get_trade_turnover_transaction_subindices remdups finance_day = Inr finance_day_response \<and>
   map scrip_details.totalTurnover
     (filter (\<lambda>d. scrip_details.sectorName d = ''Finance'')
        (dict_values (scripsDetails finance_day_response))) = [100, 250] \<and>
   (\<exists>r. map_of (sectorsDetails finance_day_response) ''Finance'' = Some r \<and>
        sector_details.totalTrades r = 7 \<and>
        sector_details.totalTradeQuantity r = 30 \<and>
        sector_details.totalTurnover r = 350)"
proof -
  have gfcl: "\<lparr>company.symbol = ''GFCL'', company.sectorName = ''Finance''\<rparr>
     \<in> set (getCompanyList finance_day)"
    by (simp add: finance_day_def)
  have kept: "map_of (index_by company.symbol (getCompanyList finance_day))
      (company.symbol \<lparr>company.symbol = ''GFCL'', company.sectorName = ''Finance''\<rparr>) =
     Some \<lparr>company.symbol = ''GFCL'', company.sectorName = ''Finance''\<rparr>"
    by (simp add: finance_day_def index_by_def)
  have conditions: "quantity_lookups_ok finance_day" "sectors_resolve finance_day"
    by (simp_all add: condition_defs finance_day_def)
  from sector_sums [OF iterates_set_remdups gfcl kept]
       finance_day_run iterates_set_remdups gfcl kept conditions
  show ?thesis
    by (simp add: finance_day_response_def dict_values_def)
qed

text \<open>
  On \<open>relisted_day\<close> the sector Finance appears in the company list, the handler
  returns, and the response has no record for that sector.
\<close>

theorem sector_sums_counterexample:
  "\<lparr>company.symbol = ''GFCL'', company.sectorName = ''Finance''\<rparr>
     \<in> set (getCompanyList relisted_day) \<and>
   get_trade_turnover_transaction_subindices remdups relisted_day =
     Inr relisted_day_response \<and>
   map_of (sectorsDetails relisted_day_response) ''Finance'' = None"
  by (simp add: run_defs relisted_day_def relisted_day_response_def)

text \<open>
  C4, as amended. If a company of the company list that the index of the list holds
  under its symbol (by \<open>index_by_keeps\<close> that is every company of the list when no
  symbol is repeated) has a sector name that is not a key of the mapping table, the
  handler raises \<^verbatim>\<open>KeyError\<close>: the request fails and there is no response, partial
  or other.
\<close>

theorem unmapped_sector_fails:
  assumes order: "iterates_set set_order"
    and c: "c \<in> set (getCompanyList n)"
    and kept: "map_of (index_by company.symbol (getCompanyList n)) (company.symbol c) = Some c"
    and unmapped: "company.sectorName c \<notin> set (dict_keys sector_mapper)"
  shows "\<exists>k. get_trade_turnover_transaction_subindices set_order n = Inl (KeyError k)"
proof (cases "get_trade_turnover_transaction_subindices set_order n")
  case (Inl e)
  then show ?thesis by (cases e) simp
next
  case (Inr out)
  from kept order have "company.sectorName c \<in>
      set (set_order (map company.sectorName
             (dict_values (index_by company.symbol (getCompanyList n)))))"
    by (simp add: iterates_set_def map_of_dict_values)
  from sectors_loop_lookup [OF handler_Inr(2) [OF Inr] this] unmapped show ?thesis
    by (auto simp: in_dict_keys)
qed

theorem unmapped_sector_fails_witness:
  "iterates_set remdups \<and>
   \<lparr>company.symbol = ''NICAD8283'', company.sectorName = ''Corporate Debenture''\<rparr>
     \<in> set (getCompanyList debenture_day) \<and>
   map_of (index_by company.symbol (getCompanyList debenture_day)) ''NICAD8283'' =
     Some \<lparr>company.symbol = ''NICAD8283'', company.sectorName = ''Corporate Debenture''\<rparr> \<and>
   ''Corporate Debenture'' \<notin> set (dict_keys sector_mapper) \<and>
   get_trade_turnover_transaction_subindices remdups debenture_day =
     Inl (KeyError ''Corporate Debenture'')"
proof -
  have c: "\<lparr>company.symbol = ''NICAD8283'', company.sectorName = ''Corporate Debenture''\<rparr>
     \<in> set (getCompanyList debenture_day)"
    by (simp add: debenture_day_def)
  have kept: "map_of (index_by company.symbol (getCompanyList debenture_day))
      (company.symbol
         \<lparr>company.symbol = ''NICAD8283'', company.sectorName = ''Corporate Debenture''\<rparr>) =
     Some \<lparr>company.symbol = ''NICAD8283'', company.sectorName = ''Corporate Debenture''\<rparr>"
    by (simp add: debenture_day_def index_by_def)
  have unmapped: "company.sectorName
      \<lparr>company.symbol = ''NICAD8283'', company.sectorName = ''Corporate Debenture''\<rparr>
        \<notin> set (dict_keys sector_mapper)"
    by (simp add: sector_mapper_def dict_keys_def)
  from unmapped_sector_fails [OF iterates_set_remdups c kept unmapped] c kept unmapped
       iterates_set_remdups
  show ?thesis
    by (simp add: run_defs debenture_day_def)
qed

text \<open>
  On \<open>overwritten_day\<close> a company of the list has a sector that the mapping table
  does not list, a later company with the same symbol replaces it in the index, and the
  handler returns a response that has nothing of that sector.
\<close>

theorem unmapped_sector_counterexample:
  "\<lparr>company.symbol = ''GFCL'', company.sectorName = ''Corporate Debenture''\<rparr>
     \<in> set (getCompanyList overwritten_day) \<and>
   ''Corporate Debenture'' \<notin> set (dict_keys sector_mapper) \<and>
   get_trade_turnover_transaction_subindices remdups overwritten_day =
     Inr overwritten_day_response \<and>
   dict_keys (sectorsDetails overwritten_day_response) = [''Others'']"
  by (simp add: run_defs overwritten_day_def overwritten_day_response_def)

end
